theory Spec2Isabelle
  imports Complex_Main "HOL-Library.AList" "HOL-Library.Monad_Syntax"
begin

section \<open>Python values and the runtime\<close>

text \<open>
  The converter builds its scene objects as Python dictionaries. A dictionary is an
  association list in insertion order with unique keys; assigning to a key that is
  already present keeps its position (\<open>AList.update\<close>).

  Two kinds of strings are kept structured instead of rendered: a path string
  (\<open>' '.join\<close> of the formatted drawing commands) is the list of its commands, and a
  dictionary whose keys are \<open>str(number)\<close> is keyed by the number itself
  (\<open>PNumDict\<close> for the float offsets of gradient colour stops, \<open>PIdxDict\<close> for the
  integer character offsets of text styles).
\<close>

datatype path_cmd =
    MoveTo real real
  | LineTo real real
  | CurveTo real real real real real real
  | ArcTo real real real bool bool
  | ClosePath

datatype pyval =
    PNone
  | PBool bool
  | PNum real
  | PStr string
  | PPath "path_cmd list"
  | PList "pyval list"
  | PDict "(string \<times> pyval) list"
  | PNumDict "(real \<times> pyval) list"
  | PIdxDict "(nat \<times> pyval) list"

type_synonym pydict = "(string \<times> pyval) list"

text \<open>
  What the code takes from the Python runtime and its libraries without defining it:
  the rounding of a float operation (\<open>fl\<close> maps the exact result to the float that is
  stored), the iteration order of \<open>set(xs)\<close>, \<open>float(s)\<close> on a string, and the base64
  codec. \<open>None\<close> stands for the exception the library raises.
\<close>

record runtime =
  fl :: "real \<Rightarrow> real"
  set_iter :: "pyval list \<Rightarrow> pyval list"
  float_of_str :: "string \<Rightarrow> real option"
  b64encode :: "string \<Rightarrow> string"
  b64decode :: "string \<Rightarrow> string option"

text \<open>
  IEEE double rounding: zero is exact, and in the normal range the relative error of
  one operation is at most \<open>2\<^sup>-\<^sup>5\<^sup>3\<close>.
\<close>

definition fl_ok :: "runtime \<Rightarrow> bool" where
  "fl_ok rt \<longleftrightarrow>
     fl rt 0 = 0 \<and>
     (\<forall>r. 1 / 2 ^ 1022 \<le> \<bar>r\<bar> \<and> \<bar>r\<bar> \<le> 2 ^ 1023 \<longrightarrow> \<bar>fl rt r - r\<bar> \<le> \<bar>r\<bar> / 2 ^ 53)"

text \<open>A set iterates over each of its elements once.\<close>

definition set_iter_ok :: "runtime \<Rightarrow> bool" where
  "set_iter_ok rt \<longleftrightarrow> (\<forall>xs. distinct (set_iter rt xs) \<and> set (set_iter rt xs) = set xs)"

text \<open>
  A runtime to evaluate the model with: exact arithmetic, sets iterating in order of
  first insertion, no float parser and no codec.
\<close>

definition rt0 :: runtime where
  "rt0 = \<lparr> fl = (\<lambda>r. r), set_iter = remdups, float_of_str = (\<lambda>s. None),
           b64encode = (\<lambda>s. s), b64decode = (\<lambda>s. Some s) \<rparr>"

datatype py_error = NameError | KeyError | TypeError | ValueError | AttributeError | IndexError

text \<open>\<open>int(x)\<close> on a float truncates towards zero.\<close>

definition py_trunc :: "real \<Rightarrow> int" where
  "py_trunc r = (if 0 \<le> r then \<lfloor>r\<rfloor> else \<lceil>r\<rceil>)"

text \<open>Truthiness of a value (\<open>if v:\<close>).\<close>

fun truthy :: "pyval \<Rightarrow> bool" where
  "truthy PNone = False"
| "truthy (PBool b) = b"
| "truthy (PNum r) = (r \<noteq> 0)"
| "truthy (PStr s) = (s \<noteq> [])"
| "truthy (PPath p) = (p \<noteq> [])"
| "truthy (PList l) = (l \<noteq> [])"
| "truthy (PDict d) = (d \<noteq> [])"
| "truthy (PNumDict d) = (d \<noteq> [])"
| "truthy (PIdxDict d) = (d \<noteq> [])"

text \<open>\<open>d.update(e)\<close> and \<open>{**d, **e}\<close>: the entries of \<open>e\<close> are assigned in order.\<close>

definition dict_update :: "('k \<times> 'v) list \<Rightarrow> ('k \<times> 'v) list \<Rightarrow> ('k \<times> 'v) list" where
  "dict_update d e = foldl (\<lambda>acc kv. AList.update (fst kv) (snd kv) acc) d e"

definition dict_get :: "('k \<times> 'v) list \<Rightarrow> 'k \<Rightarrow> 'v option" where
  "dict_get d k = map_of d k"

section \<open>Units\<close>

text \<open>
  \<open>shape_handler.py\<close>, \<open>_get_base_properties\<close>: \<open>shape.left / 12700\<close>, a true division
  of two integers, stored as a float.
\<close>

definition to_scalar :: "runtime \<Rightarrow> int \<Rightarrow> real" where
  "to_scalar rt x = fl rt (real_of_int x / 12700)"

text \<open>
  \<open>pptx.util\<close>: \<open>Inches(v)\<close> is \<open>int(v * 914400)\<close> and \<open>Pt(v)\<close> is \<open>int(v * 12700)\<close>, the
  product being a float when \<open>v\<close> is one.
\<close>

definition Inches :: "runtime \<Rightarrow> real \<Rightarrow> int" where
  "Inches rt v = py_trunc (fl rt (v * 914400))"

definition Pt :: "runtime \<Rightarrow> real \<Rightarrow> int" where
  "Pt rt v = py_trunc (fl rt (v * 12700))"

text \<open>
  \<open>pptx_fabric_converter.py\<close>, \<open>_create_shape_from_fabric\<close>: \<open>Inches(obj["left"] / 72)\<close>.
\<close>

definition from_scalar :: "runtime \<Rightarrow> real \<Rightarrow> int" where
  "from_scalar rt s = Inches rt (fl rt (s / 72))"


section \<open>Text model (\<open>text_handler.py\<close>)\<close>

text \<open>
  The dictionaries \<open>get_text_properties\<close> builds for a text frame: one per paragraph,
  each with its runs. The values read from the document (font name, size, flags, colour)
  are kept as Python values, since an unset font name or flag is \<open>None\<close>.
\<close>

record run_font =
  f_name :: pyval
  f_size :: pyval
  f_bold :: pyval
  f_italic :: pyval
  f_underline :: pyval
  f_color :: pyval
  f_strike :: pyval
  f_subscript :: pyval
  f_superscript :: pyval

record text_run =
  r_text :: string
  r_font :: run_font

record text_paragraph =
  p_text :: string
  p_align :: string
  p_spacing_before :: pyval
  p_spacing_after :: pyval
  p_line_spacing :: pyval
  p_runs :: "text_run list"

text \<open>
  \<open>max(xs, key=f)\<close>: the first element, in iteration order, whose key no later element
  exceeds; \<open>ValueError\<close> on an empty sequence.
\<close>

fun py_max_key :: "('a \<Rightarrow> nat) \<Rightarrow> 'a list \<Rightarrow> 'a option" where
  "py_max_key f [] = None"
| "py_max_key f (x # xs) = Some (foldl (\<lambda>best y. if f best < f y then y else best) x xs)"

text \<open>\<open>max(set(xs), key=xs.count)\<close>.\<close>

definition most_common :: "runtime \<Rightarrow> pyval list \<Rightarrow> pyval option" where
  "most_common rt xs = py_max_key (count_list xs) (set_iter rt xs)"

text \<open>The variables the loops of \<open>convert_to_fabric_text\<close> update.\<close>

record text_acc =
  a_text :: string
  a_styles :: "(nat \<times> pyval) list"
  a_font_sizes :: "pyval list"
  a_font_families :: "pyval list"
  a_colors :: "pyval list"
  a_alignments :: "pyval list"
  a_index :: nat

definition run_style :: "string \<Rightarrow> text_run \<Rightarrow> pydict" where
  "run_style align run =
     [(''fontFamily'', f_name (r_font run)),
      (''fontSize'', f_size (r_font run)),
      (''fontWeight'', PStr (if truthy (f_bold (r_font run)) then ''bold'' else ''normal'')),
      (''fontStyle'', PStr (if truthy (f_italic (r_font run)) then ''italic'' else ''normal'')),
      (''underline'', f_underline (r_font run)),
      (''fill'', f_color (r_font run)),
      (''textAlign'', PStr align)]"

text \<open>The body of \<open>for run in paragraph['runs']\<close>.\<close>

definition add_run :: "string \<Rightarrow> text_acc \<Rightarrow> text_run \<Rightarrow> text_acc" where
  "add_run align acc run =
     (let text = r_text run in
      if text \<noteq> [] then
        acc\<lparr> a_text := a_text acc @ text,
             a_font_sizes := a_font_sizes acc @ [f_size (r_font run)],
             a_font_families := a_font_families acc @ [f_name (r_font run)],
             a_colors := a_colors acc @ [f_color (r_font run)],
             a_styles := foldl (\<lambda>st i. AList.update (a_index acc + i) (PDict (run_style align run)) st)
                           (a_styles acc) [0..<length text],
             a_index := a_index acc + length text \<rparr>
      else acc)"

text \<open>
  The body of \<open>for paragraph in text_props['paragraphs']\<close>. The newline is added when
  \<open>paragraph != text_props['paragraphs'][-1]\<close>, a comparison of two dictionaries by
  value.
\<close>

definition add_paragraph :: "text_paragraph \<Rightarrow> text_acc \<Rightarrow> text_paragraph \<Rightarrow> text_acc" where
  "add_paragraph last_paragraph acc p =
     (let acc1 = acc\<lparr> a_alignments := a_alignments acc @ [PStr (p_align p)] \<rparr>;
          acc2 = foldl (add_run (p_align p)) acc1 (p_runs p)
      in if p \<noteq> last_paragraph
         then acc2\<lparr> a_text := a_text acc2 @ [CHR 0x0A], a_index := a_index acc2 + 1 \<rparr>
         else acc2)"

definition text_acc0 :: text_acc where
  "text_acc0 = \<lparr> a_text = [], a_styles = [], a_font_sizes = [], a_font_families = [],
                 a_colors = [], a_alignments = [], a_index = 0 \<rparr>"

definition walk_paragraphs :: "text_paragraph list \<Rightarrow> text_acc" where
  "walk_paragraphs ps = foldl (add_paragraph (last ps)) text_acc0 ps"

text \<open>
  \<open>if xs: fabric_text[key] = max(set(xs), key=xs.count)\<close>; \<open>None\<close> when \<open>max\<close>
  raises.
\<close>

definition set_default :: "runtime \<Rightarrow> string \<Rightarrow> pyval list \<Rightarrow> pydict \<Rightarrow> pydict option" where
  "set_default rt key xs d =
     (if xs \<noteq> [] then
        (case most_common rt xs of None \<Rightarrow> None | Some v \<Rightarrow> Some (AList.update key v d))
      else Some d)"

text \<open>
  \<open>convert_to_fabric_text\<close>; \<open>None\<close> is the result of its \<open>except\<close> branch.
\<close>

definition convert_to_fabric_text :: "runtime \<Rightarrow> text_paragraph list \<Rightarrow> pydict option" where
  "convert_to_fabric_text rt ps =
     (let acc = walk_paragraphs ps;
          fabric_text =
            [(''type'', PStr ''textbox''),
             (''text'', PStr (a_text acc)),
             (''styles'', PIdxDict (a_styles acc)),
             (''fontSize'', PNum 12),
             (''fontFamily'', PStr ''Arial''),
             (''textAlign'', PStr ''left''),
             (''fill'', PStr ''#000000''),
             (''originX'', PStr ''left''),
             (''originY'', PStr ''top'')]
      in case set_default rt ''fontSize'' (a_font_sizes acc) fabric_text of None \<Rightarrow> None
         | Some d1 \<Rightarrow>
        (case set_default rt ''fontFamily'' (a_font_families acc) d1 of None \<Rightarrow> None
         | Some d2 \<Rightarrow>
        (case set_default rt ''fill'' (a_colors acc) d2 of None \<Rightarrow> None
         | Some d3 \<Rightarrow> set_default rt ''textAlign'' (a_alignments acc) d3)))"

subsection \<open>What the claims about text speak of\<close>

text \<open>The runs that pass \<open>if text:\<close>, in document order.\<close>

definition nonempty_runs :: "text_paragraph list \<Rightarrow> text_run list" where
  "nonempty_runs ps = filter (\<lambda>r. r_text r \<noteq> []) (concat (map p_runs ps))"

text \<open>
  \<open>v\<close> is the default when nothing was observed, and otherwise one of the observed
  values that no other value outnumbers.
\<close>

definition mode_or_default :: "pyval \<Rightarrow> pyval list \<Rightarrow> pyval option \<Rightarrow> bool" where
  "mode_or_default dflt xs v \<longleftrightarrow>
     (if xs = [] then v = Some dflt
      else \<exists>m. v = Some m \<and> m \<in> set xs \<and> (\<forall>w \<in> set xs. count_list xs w \<le> count_list xs m))"

text \<open>The text of a paragraph as the loop over its runs appends it.\<close>

definition runs_text :: "text_paragraph \<Rightarrow> string" where
  "runs_text p = concat (map r_text (p_runs p))"

text \<open>\<open>'\n'.join(lines)\<close>.\<close>

fun join_lines :: "string list \<Rightarrow> string" where
  "join_lines [] = []"
| "join_lines [l] = l"
| "join_lines (l # ls) = l @ [CHR 0x0A] @ join_lines ls"

text \<open>Inputs to evaluate the text model on.\<close>

definition plain_run :: "string \<Rightarrow> real \<Rightarrow> text_run" where
  "plain_run t sz =
     \<lparr> r_text = t,
       r_font = \<lparr> f_name = PStr ''Arial'', f_size = PNum sz, f_bold = PBool False,
                  f_italic = PBool False, f_underline = PBool False, f_color = PStr ''#000000'',
                  f_strike = PBool False, f_subscript = PBool False,
                  f_superscript = PBool False \<rparr> \<rparr>"

definition para_of :: "string \<Rightarrow> string \<Rightarrow> text_run list \<Rightarrow> text_paragraph" where
  "para_of t al rs =
     \<lparr> p_text = t, p_align = al, p_spacing_before = PNum 0, p_spacing_after = PNum 0,
       p_line_spacing = PNum 1, p_runs = rs \<rparr>"

definition three_runs :: "text_paragraph list" where
  "three_runs =
     [para_of ''abc'' ''left'' [plain_run ''a'' 12, plain_run ''b'' 12, plain_run ''c'' 18]]"

text \<open>
  CPython keeps a set of up to four elements in a table of eight slots, an integer or an
  integral float \<open>n \<ge> 0\<close> at slot \<open>n mod 8\<close> when that slot is free, and iterates over
  the table by slot. \<open>slot_order\<close> is that order for numbers whose slots differ.
\<close>

fun hash_slot :: "pyval \<Rightarrow> nat" where
  "hash_slot (PNum r) = nat \<lfloor>r\<rfloor> mod 8"
| "hash_slot _ = 0"

definition slot_order :: "pyval list \<Rightarrow> pyval list" where
  "slot_order xs = sort_key hash_slot (remdups xs)"

definition rt_slots :: runtime where
  "rt_slots = rt0\<lparr> set_iter := slot_order \<rparr>"

section \<open>Markup elements and strings\<close>

text \<open>
  An element of the document's XML: its qualified tag as the code writes it with the
  prefixes of its namespace map (\<open>a:srgbClr\<close>), its attributes and its children.
\<close>

datatype xml = Elem (tag: string) (attrs: "(string \<times> string) list") (children: "xml list")

text \<open>All descendants in document order, the element itself excluded.\<close>

fun descendants :: "xml \<Rightarrow> xml list" where
  "descendants (Elem t a cs) = concat (map (\<lambda>c. c # descendants c) cs)"

text \<open>\<open>element.findall('.//t')\<close>, \<open>element.find('.//t')\<close> and \<open>element.get(k)\<close>.\<close>

definition xml_findall :: "string \<Rightarrow> xml \<Rightarrow> xml list" where
  "xml_findall t e = filter (\<lambda>x. tag x = t) (descendants e)"

definition xml_find :: "string \<Rightarrow> xml \<Rightarrow> xml option" where
  "xml_find t e = (case xml_findall t e of [] \<Rightarrow> None | x # _ \<Rightarrow> Some x)"

definition xml_get :: "xml \<Rightarrow> string \<Rightarrow> string option" where
  "xml_get e k = map_of (attrs e) k"

text \<open>\<open>element.get(k, default)\<close>.\<close>

definition xml_get_or :: "xml \<Rightarrow> string \<Rightarrow> string \<Rightarrow> string" where
  "xml_get_or e k dflt = (case xml_get e k of None \<Rightarrow> dflt | Some v \<Rightarrow> v)"

text \<open>\<open>tag.split('}')[-1]\<close>: the tag without its namespace.\<close>

definition local_name :: "string \<Rightarrow> string" where
  "local_name t = rev (takeWhile (\<lambda>c. c \<noteq> CHR '':'') (rev t))"

text \<open>A value or \<open>None\<close> inside an f-string.\<close>

definition py_str :: "string option \<Rightarrow> string" where
  "py_str v = (case v of None \<Rightarrow> ''None'' | Some s \<Rightarrow> s)"

text \<open>\<open>str.upper\<close> on ASCII.\<close>

definition upper_char :: "char \<Rightarrow> char" where
  "upper_char c =
     (case map_of (zip ''abcdefghijklmnopqrstuvwxyz'' ''ABCDEFGHIJKLMNOPQRSTUVWXYZ'') c of
        None \<Rightarrow> c | Some u \<Rightarrow> u)"

definition upper :: "string \<Rightarrow> string" where
  "upper s = map upper_char s"

text \<open>
  \<open>int(s, base)\<close> on an ASCII string: surrounding whitespace, a sign, for base 16 the
  prefix \<open>0x\<close>, then digits that single underscores may separate. \<open>None\<close> is
  \<open>ValueError\<close>.
\<close>

definition is_space :: "char \<Rightarrow> bool" where
  "is_space c \<longleftrightarrow> c \<in> set [CHR '' '', CHR 0x09, CHR 0x0A, CHR 0x0B, CHR 0x0C, CHR 0x0D,
                             CHR 0x1C, CHR 0x1D, CHR 0x1E, CHR 0x1F]"

definition strip :: "string \<Rightarrow> string" where
  "strip s = rev (dropWhile is_space (rev (dropWhile is_space s)))"

definition digit_val :: "nat \<Rightarrow> char \<Rightarrow> nat option" where
  "digit_val b c =
     (let n = (of_char c :: nat);
          d = (if 48 \<le> n \<and> n \<le> 57 then Some (n - 48)
               else if 97 \<le> n \<and> n \<le> 122 then Some (n - 87)
               else if 65 \<le> n \<and> n \<le> 90 then Some (n - 55)
               else None)
      in case d of None \<Rightarrow> None | Some v \<Rightarrow> if v < b then Some v else None)"

fun digits_val :: "nat \<Rightarrow> nat \<Rightarrow> string \<Rightarrow> nat option" where
  "digits_val b acc [] = Some acc"
| "digits_val b acc [c] =
     (case digit_val b c of None \<Rightarrow> None | Some d \<Rightarrow> Some (acc * b + d))"
| "digits_val b acc (c # c' # cs) =
     (if c = CHR ''_''
      then (case digit_val b c' of None \<Rightarrow> None | Some d \<Rightarrow> digits_val b (acc * b + d) cs)
      else (case digit_val b c of None \<Rightarrow> None | Some d \<Rightarrow> digits_val b (acc * b + d) (c' # cs)))"

definition unsigned_val :: "nat \<Rightarrow> string \<Rightarrow> nat option" where
  "unsigned_val b s =
     (let u = (if b = 16 \<and> (take 2 s = ''0x'' \<or> take 2 s = ''0X'')
               then (if take 1 (drop 2 s) = ''_'' then drop 3 s else drop 2 s) else s)
      in case u of [] \<Rightarrow> None
         | c # cs \<Rightarrow> (case digit_val b c of None \<Rightarrow> None | Some d \<Rightarrow> digits_val b d cs))"

definition py_int_base :: "nat \<Rightarrow> string \<Rightarrow> int option" where
  "py_int_base b s =
     (let t = strip s in
      case t of [] \<Rightarrow> None
      | c # cs \<Rightarrow>
          if c = CHR ''-'' then map_option (\<lambda>n. - int n) (unsigned_val b cs)
          else if c = CHR ''+'' then map_option int (unsigned_val b cs)
          else map_option int (unsigned_val b t))"

definition py_int :: "string \<Rightarrow> int option" where
  "py_int s = py_int_base 10 s"

text \<open>\<open>f'{n:02x}'\<close>: lower-case hexadecimal, padded with a zero to two digits.\<close>

definition hex_digit :: "nat \<Rightarrow> char" where
  "hex_digit d = ''0123456789abcdef'' ! (d mod 16)"

fun hex_str :: "nat \<Rightarrow> string" where
  "hex_str n = (if n < 16 then [hex_digit n] else hex_str (n div 16) @ [hex_digit (n mod 16)])"

declare hex_str.simps [simp del]

definition fmt_02x :: "nat \<Rightarrow> string" where
  "fmt_02x n = (let s = hex_str n in if length s < 2 then CHR ''0'' # s else s)"

section \<open>Colour resolution (\<open>color_handler.py\<close>)\<close>

text \<open>The built-in palette \<open>_extract_theme_colors\<close> starts from.\<close>

definition default_theme_colors :: "(string \<times> string) list" where
  "default_theme_colors =
     [(''BACKGROUND_1'', ''#FFFFFF''), (''BACKGROUND_2'', ''#F2F2F2''),
      (''TEXT_1'', ''#000000''), (''TEXT_2'', ''#666666''),
      (''ACCENT_1'', ''#4472C4''), (''ACCENT_2'', ''#ED7D31''),
      (''ACCENT_3'', ''#A5A5A5''), (''ACCENT_4'', ''#FFC000''),
      (''ACCENT_5'', ''#5B9BD5''), (''ACCENT_6'', ''#70AD47'')]"

text \<open>
  \<open>_extract_color_from_element\<close>. The first argument is the handler's attribute
  \<open>theme_colors\<close>, \<open>None\<close> while the constructor has not assigned it yet. Reading the
  missing attribute, or calling \<open>upper\<close> on a missing \<open>val\<close>, raises
  \<open>AttributeError\<close>, which the function catches and answers with \<open>None\<close>.
\<close>

definition extract_color_from_element :: "(string \<times> string) list option \<Rightarrow> xml \<Rightarrow> string option" where
  "extract_color_from_element theme_colors element =
     (case xml_find ''a:srgbClr'' element of
        Some srgb \<Rightarrow> Some (''#'' @ py_str (xml_get srgb ''val''))
      | None \<Rightarrow>
     (case xml_find ''a:sysClr'' element of
        Some sys_clr \<Rightarrow>
          Some (''#'' @ py_str (case xml_get sys_clr ''lastClr'' of
                                  Some l \<Rightarrow> Some l | None \<Rightarrow> xml_get sys_clr ''val''))
      | None \<Rightarrow>
     (case xml_find ''a:schemeClr'' element of
        Some scheme_clr \<Rightarrow>
          (case theme_colors of
             None \<Rightarrow> None
           | Some th \<Rightarrow>
               (case xml_get scheme_clr ''val'' of
                  None \<Rightarrow> None
                | Some val \<Rightarrow> map_of th (upper val)))
      | None \<Rightarrow> None)))"

text \<open>The element names of the colour scheme and the roles they fill, in the source's order.\<close>

definition color_mappings :: "(string \<times> string) list" where
  "color_mappings =
     [(''dk1'', ''TEXT_1''), (''lt1'', ''BACKGROUND_1''), (''dk2'', ''TEXT_2''),
      (''lt2'', ''BACKGROUND_2''), (''accent1'', ''ACCENT_1''), (''accent2'', ''ACCENT_2''),
      (''accent3'', ''ACCENT_3''), (''accent4'', ''ACCENT_4''), (''accent5'', ''ACCENT_5''),
      (''accent6'', ''ACCENT_6'')]"

text \<open>
  \<open>_extract_theme_colors\<close>, from the root element of the theme part of the first
  slide's layout (\<open>None\<close> when one of the steps towards it finds nothing). It runs inside
  the constructor, before \<open>theme_colors\<close> is assigned.
\<close>

definition extract_theme_colors :: "xml option \<Rightarrow> (string \<times> string) list" where
  "extract_theme_colors theme_root =
     (case theme_root of None \<Rightarrow> default_theme_colors
      | Some theme_elem \<Rightarrow>
     (case xml_find ''a:clrScheme'' theme_elem of None \<Rightarrow> default_theme_colors
      | Some clr_scheme \<Rightarrow>
          foldl (\<lambda>theme_colors m.
                   case xml_find (''a:'' @ fst m) clr_scheme of None \<Rightarrow> theme_colors
                   | Some elem \<Rightarrow>
                       (case extract_color_from_element None elem of None \<Rightarrow> theme_colors
                        | Some color \<Rightarrow>
                            if color \<noteq> [] then AList.update (snd m) color theme_colors
                            else theme_colors))
                default_theme_colors color_mappings))"

text \<open>
  What \<open>get_shape_color\<close> reads of the object it is given (a shape, a line format or a
  slide background): whether it has a \<open>fill\<close>, the fill's type, and of its foreground
  colour the RGB triple (present when \<open>hasattr(color, 'rgb') and color.rgb\<close>) and the
  name \<open>str(color.theme_color)\<close> (present when the attribute is).
\<close>

datatype mso_fill =
  MSO_FILL_BACKGROUND | MSO_FILL_GRADIENT | MSO_FILL_GROUP | MSO_FILL_PATTERNED
  | MSO_FILL_PICTURE | MSO_FILL_SOLID | MSO_FILL_TEXTURED

record color_format =
  c_rgb :: "(nat \<times> nat \<times> nat) option"
  c_theme_color :: "string option"

record fill_format =
  fill_type :: "mso_fill option"
  fore_color :: "color_format option"

datatype fill_attr = NoFillAttr | FillNone | Fill fill_format

definition rgb_hex :: "nat \<times> nat \<times> nat \<Rightarrow> string" where
  "rgb_hex c = (case c of (r, g, b) \<Rightarrow> ''#'' @ fmt_02x r @ fmt_02x g @ fmt_02x b)"

text \<open>
  \<open>get_shape_color\<close>. A theme colour missing from the table raises \<open>KeyError\<close> in the
  debug print before the membership test; the \<open>except\<close> branch answers \<open>transparent\<close>
  as the test's \<open>else\<close> branch would.
\<close>

definition get_shape_color :: "(string \<times> string) list \<Rightarrow> fill_attr \<Rightarrow> string" where
  "get_shape_color theme_colors sf =
     (case sf of
        NoFillAttr \<Rightarrow> ''transparent''
      | FillNone \<Rightarrow> ''transparent''
      | Fill fill \<Rightarrow>
          if fill_type fill = Some MSO_FILL_BACKGROUND then ''transparent''
          else if fill_type fill = Some MSO_FILL_SOLID then
            (case fore_color fill of
               None \<Rightarrow> ''transparent''
             | Some color \<Rightarrow>
                 (case c_rgb color of
                    Some rgb \<Rightarrow> rgb_hex rgb
                  | None \<Rightarrow>
                      (case c_theme_color color of
                         None \<Rightarrow> ''transparent''
                       | Some theme_color \<Rightarrow>
                           (case map_of theme_colors theme_color of
                              None \<Rightarrow> ''transparent''
                            | Some c \<Rightarrow> c))))
          else if fill_type fill = Some MSO_FILL_GRADIENT then ''gradient''
          else ''transparent'')"

text \<open>Colour elements to evaluate the resolution on.\<close>

definition srgb_elem :: xml where
  "srgb_elem = Elem ''a:accent1'' [] [Elem ''a:srgbClr'' [(''val'', ''4472C4'')] []]"

definition sys_elem :: xml where
  "sys_elem =
     Elem ''a:dk1'' [] [Elem ''a:sysClr'' [(''val'', ''windowText''), (''lastClr'', ''000000'')] []]"

definition sys_only_elem :: xml where
  "sys_only_elem = Elem ''a:dk1'' [] [Elem ''a:sysClr'' [(''val'', ''windowText'')] []]"

definition scheme_elem :: xml where
  "scheme_elem = Elem ''a:solidFill'' [] [Elem ''a:schemeClr'' [(''val'', ''accent_1'')] []]"

definition empty_elem :: xml where
  "empty_elem = Elem ''a:dk1'' [] []"

section \<open>Gradients, custom geometry and effects (\<open>advanced_shape_handler.py\<close>)\<close>

text \<open>
  The dictionaries the extraction builds. An effect is a dictionary with a \<open>type\<close> of
  \<open>shadow\<close> (colour, opacity, blur, offset x and y), \<open>glow\<close> (colour, opacity, radius)
  or \<open>soft-edge\<close> (radius).
\<close>

record gradient =
  g_type :: string
  g_angle :: real
  g_stops :: "(real \<times> string) list"

datatype effect =
    Shadow string real real real real
  | Glow string real real
  | SoftEdge real

record geometry =
  geo_paths :: "path_cmd list list"
  geo_rect :: "(real \<times> real \<times> real \<times> real) option"

record shape_props =
  sp_effects :: "effect list"
  sp_gradient :: "gradient option"
  sp_custom_geometry :: "geometry option"

text \<open>\<open>int(e.get(k, dflt)) / d\<close>; \<open>None\<close> when \<open>int\<close> raises \<open>ValueError\<close>.\<close>

definition int_attr :: "runtime \<Rightarrow> xml \<Rightarrow> string \<Rightarrow> string \<Rightarrow> real \<Rightarrow> real option" where
  "int_attr rt e k dflt d =
     map_option (\<lambda>n. fl rt (real_of_int n / d)) (py_int (xml_get_or e k dflt))"

text \<open>The loop over the gradient stops; a stop without an sRGB colour is left out.\<close>

fun gradient_stops :: "runtime \<Rightarrow> xml list \<Rightarrow> (real \<times> string) list option" where
  "gradient_stops rt [] = Some []"
| "gradient_stops rt (gs # rest) =
     do {
       pos \<leftarrow> int_attr rt gs ''pos'' ''0'' 100000;
       stops \<leftarrow> gradient_stops rt rest;
       (case xml_find ''a:srgbClr'' gs of
          None \<Rightarrow> Some stops
        | Some srgb_clr \<Rightarrow> Some ((pos, ''#'' @ py_str (xml_get srgb_clr ''val'')) # stops))
     }"

text \<open>\<open>_extract_gradient\<close>; \<open>None\<close> is the result of its \<open>except\<close> branch.\<close>

definition extract_gradient :: "runtime \<Rightarrow> xml \<Rightarrow> gradient option" where
  "extract_gradient rt grad_fill =
     do {
       head \<leftarrow> (case xml_find ''a:lin'' grad_fill of
                  Some lin \<Rightarrow> map_option (\<lambda>angle. (''linear'', angle)) (int_attr rt lin ''ang'' ''0'' 60000)
                | None \<Rightarrow>
                    (case xml_find ''a:path'' grad_fill of
                       Some p \<Rightarrow> Some (''radial'', 0)
                     | None \<Rightarrow> Some (''linear'', 0)));
       stops \<leftarrow> gradient_stops rt (xml_findall ''a:gs'' grad_fill);
       Some \<lparr> g_type = fst head, g_angle = snd head, g_stops = stops \<rparr>
     }"

text \<open>The point of a move or line command; a command without a point raises.\<close>

definition point_of :: "runtime \<Rightarrow> xml \<Rightarrow> (real \<times> real) option" where
  "point_of rt pt =
     do {
       x \<leftarrow> int_attr rt pt ''x'' ''0'' 100000;
       y \<leftarrow> int_attr rt pt ''y'' ''0'' 100000;
       Some (x, y)
     }"

text \<open>One command of a custom path: the commands it appends, or \<open>None\<close> when it raises.\<close>

definition path_command :: "runtime \<Rightarrow> xml \<Rightarrow> path_cmd list option" where
  "path_command rt cmd =
     (let t = local_name (tag cmd) in
      if t = ''moveTo'' then
        do { pt \<leftarrow> xml_find ''a:pt'' cmd; p \<leftarrow> point_of rt pt; Some [MoveTo (fst p) (snd p)] }
      else if t = ''lnTo'' then
        do { pt \<leftarrow> xml_find ''a:pt'' cmd; p \<leftarrow> point_of rt pt; Some [LineTo (fst p) (snd p)] }
      else if t = ''cubicBezTo'' then
        (case xml_findall ''a:pt'' cmd of
           [p1, p2, p3] \<Rightarrow>
             do {
               a \<leftarrow> point_of rt p1; b \<leftarrow> point_of rt p2; c \<leftarrow> point_of rt p3;
               Some [CurveTo (fst a) (snd a) (fst b) (snd b) (fst c) (snd c)]
             }
         | _ \<Rightarrow> Some [])
      else if t = ''arcTo'' then
        do {
          wR \<leftarrow> int_attr rt cmd ''wR'' ''0'' 100000;
          hR \<leftarrow> int_attr rt cmd ''hR'' ''0'' 100000;
          stAng \<leftarrow> int_attr rt cmd ''stAng'' ''0'' 60000;
          swAng \<leftarrow> int_attr rt cmd ''swAng'' ''0'' 60000;
          Some [ArcTo wR hR stAng (swAng > 180) (swAng > 0)]
        }
      else if t = ''close'' then Some [ClosePath]
      else Some [])"

text \<open>\<open>_extract_custom_geometry\<close>; a path without commands is left out.\<close>

definition extract_custom_geometry :: "runtime \<Rightarrow> xml \<Rightarrow> geometry option" where
  "extract_custom_geometry rt custom_geom =
     do {
       rect \<leftarrow> (case xml_find ''a:rect'' custom_geom of
                  None \<Rightarrow> Some None
                | Some r \<Rightarrow>
                    do {
                      l \<leftarrow> int_attr rt r ''l'' ''0'' 100000;
                      t \<leftarrow> int_attr rt r ''t'' ''0'' 100000;
                      r' \<leftarrow> int_attr rt r ''r'' ''0'' 100000;
                      b \<leftarrow> int_attr rt r ''b'' ''0'' 100000;
                      Some (Some (l, t, r', b))
                    });
       paths \<leftarrow> (case xml_find ''a:pathLst'' custom_geom of
                   None \<Rightarrow> Some []
                 | Some path_list \<Rightarrow>
                     those (map (\<lambda>path. map_option concat
                                           (those (map (path_command rt) (children path))))
                                (xml_findall ''a:path'' path_list)));
       Some \<lparr> geo_paths = filter (\<lambda>p. p \<noteq> []) paths, geo_rect = rect \<rparr>
     }"

definition get_effect_color :: "xml \<Rightarrow> string" where
  "get_effect_color effect_elem =
     (case xml_find ''a:srgbClr'' effect_elem of
        Some srgb_clr \<Rightarrow> ''#'' @ py_str (xml_get srgb_clr ''val'')
      | None \<Rightarrow> ''#000000'')"

text \<open>
  The three steps of \<open>_extract_effects\<close>: what each appends to the list when its
  element is found, \<open>None\<close> when a number does not parse.
\<close>

definition shadow_effect :: "runtime \<Rightarrow> xml \<Rightarrow> effect list option" where
  "shadow_effect rt effects =
     (case xml_find ''a:outerShdw'' effects of
        None \<Rightarrow> Some []
      | Some shadow \<Rightarrow>
          do {
            opacity \<leftarrow> int_attr rt shadow ''alpha'' ''100000'' 100000;
            blur \<leftarrow> int_attr rt shadow ''blurRad'' ''0'' 12700;
            x \<leftarrow> int_attr rt shadow ''dx'' ''0'' 12700;
            y \<leftarrow> int_attr rt shadow ''dy'' ''0'' 12700;
            Some [Shadow (get_effect_color shadow) opacity blur x y]
          })"

definition glow_effect :: "runtime \<Rightarrow> xml \<Rightarrow> effect list option" where
  "glow_effect rt effects =
     (case xml_find ''a:glow'' effects of
        None \<Rightarrow> Some []
      | Some glow \<Rightarrow>
          do {
            opacity \<leftarrow> int_attr rt glow ''alpha'' ''100000'' 100000;
            radius \<leftarrow> int_attr rt glow ''rad'' ''0'' 12700;
            Some [Glow (get_effect_color glow) opacity radius]
          })"

definition soft_edge_effect :: "runtime \<Rightarrow> xml \<Rightarrow> effect list option" where
  "soft_edge_effect rt effects =
     (case xml_find ''a:softEdge'' effects of
        None \<Rightarrow> Some []
      | Some soft \<Rightarrow>
          do {
            radius \<leftarrow> int_attr rt soft ''rad'' ''0'' 12700;
            Some [SoftEdge radius]
          })"

text \<open>
  \<open>_extract_effects\<close>: the shadow first, then the glow, then the soft edge; the empty
  list from its \<open>except\<close> branch.
\<close>

definition extract_effects :: "runtime \<Rightarrow> xml \<Rightarrow> effect list" where
  "extract_effects rt effects =
     (case do {
             s \<leftarrow> shadow_effect rt effects;
             g \<leftarrow> glow_effect rt effects;
             e \<leftarrow> soft_edge_effect rt effects;
             Some (s @ g @ e)
           }
      of None \<Rightarrow> [] | Some effect_list \<Rightarrow> effect_list)"

text \<open>
  \<open>extract_shape_properties\<close>, from \<open>shape.element\<close> (\<open>None\<close> when the shape has no
  such attribute).
\<close>

definition extract_shape_properties :: "runtime \<Rightarrow> xml option \<Rightarrow> shape_props option" where
  "extract_shape_properties rt element =
     (case element of
        None \<Rightarrow> None
      | Some el \<Rightarrow>
          (case xml_find ''a:spPr'' el of
             None \<Rightarrow> None
           | Some sp_pr \<Rightarrow>
               Some \<lparr> sp_effects = (case xml_find ''a:effectLst'' sp_pr of
                                      None \<Rightarrow> [] | Some effects \<Rightarrow> extract_effects rt effects),
                      sp_gradient = (case xml_find ''a:gradFill'' sp_pr of
                                       None \<Rightarrow> None | Some grad_fill \<Rightarrow> extract_gradient rt grad_fill),
                      sp_custom_geometry = (case xml_find ''a:custGeom'' sp_pr of
                                              None \<Rightarrow> None
                                            | Some custom_geom \<Rightarrow> extract_custom_geometry rt custom_geom) \<rparr>))"

text \<open>
  The names a module binds at its top level, by its imports and its class. Reading any
  other name that is not a Python builtin raises \<open>NameError\<close>.
\<close>

definition advanced_shape_handler_globals :: "string list" where
  "advanced_shape_handler_globals =
     [''ET'', ''ZipFile'', ''io'', ''base64'', ''math'', ''AdvancedShapeHandler'']"

definition load_global :: "string list \<Rightarrow> string \<Rightarrow> py_error + unit" where
  "load_global globals n = (if n \<in> set globals then Inr () else Inl NameError)"

text \<open>
  The \<open>fill\<close> entry \<open>convert_to_fabric\<close> builds for a gradient. For a linear gradient
  the code goes on to \<open>grad['angle'] * Math.PI / 180\<close> and the four coordinates from
  \<open>Math.cos\<close> and \<open>Math.sin\<close>.
\<close>

definition gradient_fill :: "runtime \<Rightarrow> gradient \<Rightarrow> py_error + pyval" where
  "gradient_fill rt grad =
     (let color_stops =
            PNumDict (foldl (\<lambda>d stop. AList.update (fst stop) (PStr (snd stop)) d) [] (g_stops grad))
      in if g_type grad = ''linear'' then
           (case load_global advanced_shape_handler_globals ''Math'' of
              Inl e \<Rightarrow> Inl e
            | Inr u \<Rightarrow>
                (let angle = fl rt (fl rt (g_angle grad * fl rt pi) / 180) in
                 Inr (PDict
                   [(''type'', PStr (g_type grad)),
                    (''coords'', PDict
                       [(''x1'', PNum (fl rt (1 / 2 - fl rt (1 / 2 * fl rt (cos angle))))),
                        (''y1'', PNum (fl rt (1 / 2 - fl rt (1 / 2 * fl rt (sin angle))))),
                        (''x2'', PNum (fl rt (1 / 2 + fl rt (1 / 2 * fl rt (cos angle))))),
                        (''y2'', PNum (fl rt (1 / 2 + fl rt (1 / 2 * fl rt (sin angle)))))]),
                    (''colorStops'', color_stops)])))
         else
           Inr (PDict
             [(''type'', PStr (g_type grad)),
              (''coords'', PDict
                 [(''x1'', PNum (1 / 2)), (''y1'', PNum (1 / 2)), (''r1'', PNum 0),
                  (''x2'', PNum (1 / 2)), (''y2'', PNum (1 / 2)), (''r2'', PNum (1 / 2))]),
              (''colorStops'', color_stops)]))"

definition geometry_props :: "runtime \<Rightarrow> geometry \<Rightarrow> pydict \<Rightarrow> pydict" where
  "geometry_props rt geom fabric_props =
     (let fp = (case geo_paths geom of
                  [] \<Rightarrow> fabric_props
                | p # ps \<Rightarrow> AList.update ''path'' (PPath p) fabric_props)
      in case geo_rect geom of
           None \<Rightarrow> fp
         | Some (l, t, r, b) \<Rightarrow>
             AList.update ''clipPath''
               (PDict [(''type'', PStr ''rect''), (''left'', PNum l), (''top'', PNum t),
                       (''width'', PNum (fl rt (r - l))), (''height'', PNum (fl rt (b - t)))])
               fp)"

text \<open>The \<open>shadow\<close> entry an effect is converted to.\<close>

fun effect_shadow :: "runtime \<Rightarrow> effect \<Rightarrow> pyval" where
  "effect_shadow rt (Shadow color opacity blur x y) =
     PDict [(''color'', PStr color), (''blur'', PNum blur), (''offsetX'', PNum x),
            (''offsetY'', PNum y), (''opacity'', PNum opacity)]"
| "effect_shadow rt (Glow color opacity radius) =
     PDict [(''color'', PStr color), (''blur'', PNum (fl rt (radius * 2))), (''offsetX'', PNum 0),
            (''offsetY'', PNum 0), (''opacity'', PNum opacity)]"
| "effect_shadow rt (SoftEdge radius) =
     PDict [(''color'', PStr ''#000000''), (''blur'', PNum radius), (''offsetX'', PNum 0),
            (''offsetY'', PNum 0), (''opacity'', PNum (fl rt (1 / 10)))]"

text \<open>
  \<open>convert_to_fabric\<close>: the gradient, the custom geometry, then each effect in turn
  assigned to \<open>fabric_props['shadow']\<close>. An exception anywhere is answered with \<open>{}\<close>.
\<close>

definition convert_to_fabric :: "runtime \<Rightarrow> shape_props \<Rightarrow> pydict" where
  "convert_to_fabric rt props =
     (case (case sp_gradient props of
              None \<Rightarrow> Inr []
            | Some grad \<Rightarrow>
                (case gradient_fill rt grad of Inl e \<Rightarrow> Inl e | Inr f \<Rightarrow> Inr [(''fill'', f)]))
      of Inl e \<Rightarrow> []
       | Inr fp1 \<Rightarrow>
           (let fp2 = (case sp_custom_geometry props of
                         None \<Rightarrow> fp1
                       | Some geom \<Rightarrow> geometry_props rt geom fp1)
            in foldl (\<lambda>fp effect. AList.update ''shadow'' (effect_shadow rt effect) fp)
                 fp2 (sp_effects props)))"

text \<open>Shapes to evaluate the conversion on: their \<open>element\<close>.\<close>

definition shadow_and_glow :: xml where
  "shadow_and_glow =
     Elem ''a:effectLst'' []
       [Elem ''a:outerShdw'' [(''blurRad'', ''12700''), (''dx'', ''25400''), (''dy'', ''25400'')]
          [Elem ''a:srgbClr'' [(''val'', ''FF0000'')] []],
        Elem ''a:glow'' [(''rad'', ''38100'')] [Elem ''a:srgbClr'' [(''val'', ''00FF00'')] []]]"

definition shadow_and_glow_shape :: xml where
  "shadow_and_glow_shape = Elem ''p:sp'' [] [Elem ''a:spPr'' [] [shadow_and_glow]]"

definition linear_gradient_shape :: xml where
  "linear_gradient_shape =
     Elem ''p:sp'' []
       [Elem ''a:spPr'' []
          [Elem ''a:gradFill'' []
             [Elem ''a:gsLst'' []
                [Elem ''a:gs'' [(''pos'', ''0'')] [Elem ''a:srgbClr'' [(''val'', ''FF0000'')] []],
                 Elem ''a:gs'' [(''pos'', ''100000'')] [Elem ''a:srgbClr'' [(''val'', ''0000FF'')] []]],
              Elem ''a:lin'' [(''ang'', ''5400000'')] []]]]"

section \<open>The forward dispatcher (\<open>shape_handler.py\<close>)\<close>

text \<open>
  What the code reads of a shape of the document library. Positions and sizes are the
  library's integer lengths, and \<open>None\<close> for a shape whose element has no
  \<open>a:xfrm\<close>. An attribute the code probes with \<open>hasattr\<close> is an option.
  The text frame is present as the paragraphs \<open>get_text_properties\<close> extracts from it.
\<close>

datatype mso_shape_type = GROUP | PICTURE | TEXT_BOX | AUTO_SHAPE | FREEFORM | LINE | OTHER_SHAPE_TYPE

text \<open>
  A line format: whether \<open>hasattr(line, 'color') and line.color\<close> holds, what
  \<open>get_shape_color(line)\<close> reads of it, and its width.
\<close>

record line_format =
  l_has_color :: bool
  l_fill :: fill_attr
  l_width :: "int option"

record picture_image =
  img_blob :: string
  img_content_type :: string

text \<open>
  The attribute \<open>auto_shape_type\<close> as \<open>hasattr\<close> and the comparison with
  \<open>MSO_SHAPE.ISOSCELES_TRIANGLE\<close> read it. Reading it gives a member of the
  enumeration, by name; or raises \<open>AttributeError\<close>, which \<open>hasattr\<close> answers with
  \<open>False\<close>; or raises another exception, the library's \<open>ValueError\<close> for a preset
  geometry it has no member for, which \<open>hasattr\<close> lets through.
\<close>

datatype auto_shape_attr = NoAutoShapeType | AutoShapeTypeRaises | AutoShapeType string

record shape_attrs =
  s_shape_type :: mso_shape_type
  s_left :: "int option"
  s_top :: "int option"
  s_width :: "int option"
  s_height :: "int option"
  s_rotation :: "real option"
  s_fill :: fill_attr
  s_line :: "line_format option"
  s_auto_shape_type :: auto_shape_attr
  s_element :: "xml option"
  s_image :: "picture_image option"
  s_text_props :: "text_paragraph list"

datatype shape = Shape shape_attrs "shape list"

text \<open>A number as arithmetic takes it (a \<open>bool\<close> is an \<open>int\<close>); \<open>None\<close> is \<open>TypeError\<close>.\<close>

fun num_of :: "pyval \<Rightarrow> real option" where
  "num_of (PNum r) = Some r"
| "num_of (PBool b) = Some (if b then 1 else 0)"
| "num_of _ = None"

text \<open>\<open>x % y\<close> on floats, for \<open>y > 0\<close>.\<close>

definition py_fmod :: "real \<Rightarrow> real \<Rightarrow> real" where
  "py_fmod x y = x - y * of_int \<lfloor>x / y\<rfloor>"

text \<open>\<open>s.split(c)[-1]\<close>.\<close>

definition last_segment :: "char \<Rightarrow> string \<Rightarrow> string" where
  "last_segment c s = rev (takeWhile (\<lambda>x. x \<noteq> c) (rev s))"

text \<open>
  \<open>_get_base_properties\<close>. \<open>None / 12700\<close> raises \<open>TypeError\<close>, which is the result
  \<open>None\<close> here; \<open>process_shape\<close> catches it.
\<close>

definition get_base_properties :: "runtime \<Rightarrow> shape_attrs \<Rightarrow> pydict option" where
  "get_base_properties rt a =
     (case s_left a of None \<Rightarrow> None | Some l \<Rightarrow>
      case s_top a of None \<Rightarrow> None | Some t \<Rightarrow>
      case s_width a of None \<Rightarrow> None | Some w \<Rightarrow>
      case s_height a of None \<Rightarrow> None | Some h \<Rightarrow>
        Some [(''left'', PNum (to_scalar rt l)),
              (''top'', PNum (to_scalar rt t)),
              (''width'', PNum (to_scalar rt w)),
              (''height'', PNum (to_scalar rt h)),
              (''rotation'', PNum (case s_rotation a of Some r \<Rightarrow> r | None \<Rightarrow> 0))])"

definition get_line_properties :: "runtime \<Rightarrow> (string \<times> string) list \<Rightarrow> shape_attrs \<Rightarrow> pydict" where
  "get_line_properties rt theme_colors a =
     (case s_line a of
        None \<Rightarrow> []
      | Some line \<Rightarrow>
          (let props =
                 (if l_has_color line then
                    (let color = get_shape_color theme_colors (l_fill line)
                     in if color \<noteq> [] then [(''stroke'', PStr color)] else [])
                  else [])
           in case l_width line of
                None \<Rightarrow> props
              | Some w \<Rightarrow> AList.update ''strokeWidth'' (PNum (to_scalar rt w)) props))"

text \<open>
  \<open>if not line_props.get('stroke'): line_props['stroke'] = '#000000'\<close>, and the same
  for the width.
\<close>

definition line_defaults :: "pydict \<Rightarrow> pydict" where
  "line_defaults line_props =
     (let lp = (case dict_get line_props ''stroke'' of
                  Some v \<Rightarrow> if truthy v then line_props
                            else AList.update ''stroke'' (PStr ''#000000'') line_props
                | None \<Rightarrow> AList.update ''stroke'' (PStr ''#000000'') line_props)
      in case dict_get lp ''strokeWidth'' of
           Some v \<Rightarrow> if truthy v then lp else AList.update ''strokeWidth'' (PNum 1) lp
         | None \<Rightarrow> AList.update ''strokeWidth'' (PNum 1) lp)"

text \<open>\<open>float(pt.get(k)) / 12700\<close>; a missing attribute raises \<open>TypeError\<close>.\<close>

definition float_attr :: "runtime \<Rightarrow> xml \<Rightarrow> string \<Rightarrow> real option" where
  "float_attr rt pt k =
     do { s \<leftarrow> xml_get pt k; v \<leftarrow> float_of_str rt s; Some (fl rt (v / 12700)) }"

definition freeform_point :: "runtime \<Rightarrow> xml \<Rightarrow> (real \<times> real) option" where
  "freeform_point rt pt =
     do { x \<leftarrow> float_attr rt pt ''x''; y \<leftarrow> float_attr rt pt ''y''; Some (x, y) }"

definition freeform_command :: "runtime \<Rightarrow> xml \<Rightarrow> path_cmd list option" where
  "freeform_command rt child =
     (let t = local_name (tag child) in
      if t = ''moveTo'' then
        do { pt \<leftarrow> xml_find ''a:pt'' child; p \<leftarrow> freeform_point rt pt;
             Some [MoveTo (fst p) (snd p)] }
      else if t = ''lnTo'' then
        do { pt \<leftarrow> xml_find ''a:pt'' child; p \<leftarrow> freeform_point rt pt;
             Some [LineTo (fst p) (snd p)] }
      else if t = ''cubicBezTo'' then
        (case xml_findall ''a:pt'' child of
           [p1, p2, p3] \<Rightarrow>
             do {
               a \<leftarrow> freeform_point rt p1; b \<leftarrow> freeform_point rt p2; c \<leftarrow> freeform_point rt p3;
               Some [CurveTo (fst a) (snd a) (fst b) (snd b) (fst c) (snd c)]
             }
         | _ \<Rightarrow> Some [])
      else if t = ''close'' then Some [ClosePath]
      else Some [])"

text \<open>\<open>_extract_path_commands\<close> and \<open>_get_path_data\<close>; \<open>None\<close> from their \<open>except\<close> branches.\<close>

definition extract_path_commands :: "runtime \<Rightarrow> xml \<Rightarrow> path_cmd list option" where
  "extract_path_commands rt path_elem =
     map_option concat (those (map (freeform_command rt) (children path_elem)))"

definition get_path_data :: "runtime \<Rightarrow> shape_attrs \<Rightarrow> path_cmd list option" where
  "get_path_data rt a =
     (case s_element a of
        None \<Rightarrow> None
      | Some el \<Rightarrow>
          (case xml_find ''a:path'' el of
             None \<Rightarrow> None
           | Some path_elem \<Rightarrow> extract_path_commands rt path_elem))"

text \<open>
  \<open>_process_group\<close>, given what \<open>process_shape\<close> returned for each child: a child
  is kept when its result is truthy.
\<close>

definition process_group :: "pydict \<Rightarrow> pydict option list \<Rightarrow> pydict option" where
  "process_group base_props results =
     (let shapes_data = concat (map (\<lambda>r. case r of None \<Rightarrow> []
                                           | Some d \<Rightarrow> if d \<noteq> [] then [d] else []) results)
      in if shapes_data \<noteq> [] then
           Some (AList.update ''objects'' (PList (map PDict shapes_data))
                   (AList.update ''type'' (PStr ''group'') base_props))
         else None)"

definition process_picture :: "runtime \<Rightarrow> shape_attrs \<Rightarrow> pydict \<Rightarrow> pydict option" where
  "process_picture rt a base_props =
     (case s_image a of
        None \<Rightarrow> None
      | Some img \<Rightarrow>
          (let image_data = b64encode rt (img_blob img);
               image_type = last_segment CHR ''/'' (img_content_type img);
               opacity =
                 (case s_element a of
                    None \<Rightarrow> Some 1
                  | Some el \<Rightarrow>
                      (case xml_find ''a:alphaModFix'' el of
                         None \<Rightarrow> Some 1
                       | Some alpha_mod \<Rightarrow>
                           (case xml_get alpha_mod ''amt'' of
                              None \<Rightarrow> Some 1
                            | Some amt \<Rightarrow>
                                if amt \<noteq> [] then
                                  map_option (\<lambda>n. fl rt (real_of_int n / 100000)) (py_int amt)
                                else Some 1)))
           in case opacity of
                None \<Rightarrow> None
              | Some opac \<Rightarrow>
                  Some (dict_update base_props
                          [(''type'', PStr ''image''),
                           (''src'', PStr (''data:image/'' @ image_type @ '';base64,'' @ image_data)),
                           (''opacity'', PNum opac),
                           (''crossOrigin'', PStr ''anonymous'')])))"

definition process_textbox ::
  "runtime \<Rightarrow> (string \<times> string) list \<Rightarrow> shape_attrs \<Rightarrow> pydict \<Rightarrow> pydict option" where
  "process_textbox rt theme_colors a base_props =
     (case convert_to_fabric_text rt (s_text_props a) of
        None \<Rightarrow> None
      | Some fabric_text \<Rightarrow>
          if fabric_text \<noteq> [] then
            Some (AList.update ''backgroundColor'' (PStr (get_shape_color theme_colors (s_fill a)))
                    (dict_update base_props fabric_text))
          else None)"

definition process_autoshape ::
  "runtime \<Rightarrow> (string \<times> string) list \<Rightarrow> shape_attrs \<Rightarrow> pydict \<Rightarrow> pydict option" where
  "process_autoshape rt theme_colors a base_props =
     (if s_auto_shape_type a = AutoShapeTypeRaises then None
      else
       (let shape_type = (if s_auto_shape_type a = AutoShapeType ''ISOSCELES_TRIANGLE''
                          then ''triangle'' else ''rect'');
            shape_data = AList.update ''type'' (PStr shape_type) base_props;
            fill_color = get_shape_color theme_colors (s_fill a);
            shape_data = (if fill_color \<noteq> [] then AList.update ''fill'' (PStr fill_color) shape_data
                          else shape_data);
            line_props = line_defaults (get_line_properties rt theme_colors a);
            shape_data = dict_update shape_data line_props
        in if shape_type = ''triangle'' then
             (case dict_get shape_data ''rotation'' of
                None \<Rightarrow>
                  Some (AList.update ''angle'' (PNum (py_fmod (0 + 180) 360)) shape_data)
              | Some v \<Rightarrow>
                  (case num_of v of
                     None \<Rightarrow> None
                   | Some r \<Rightarrow>
                       Some (AList.update ''angle'' (PNum (py_fmod (fl rt (r + 180)) 360)) shape_data)))
           else Some shape_data))"

definition process_freeform ::
  "runtime \<Rightarrow> (string \<times> string) list \<Rightarrow> shape_attrs \<Rightarrow> pydict \<Rightarrow> pydict option" where
  "process_freeform rt theme_colors a base_props =
     (case get_path_data rt a of
        None \<Rightarrow> None
      | Some path_data \<Rightarrow>
          if path_data \<noteq> [] then
            (let shape_data = AList.update ''path'' (PPath path_data)
                                (AList.update ''type'' (PStr ''path'') base_props);
                 fill_color = get_shape_color theme_colors (s_fill a);
                 shape_data = (if fill_color \<noteq> []
                               then AList.update ''fill'' (PStr fill_color) shape_data
                               else shape_data)
             in Some (dict_update shape_data (get_line_properties rt theme_colors a)))
          else None)"

definition process_line ::
  "runtime \<Rightarrow> (string \<times> string) list \<Rightarrow> shape_attrs \<Rightarrow> pydict \<Rightarrow> pydict option" where
  "process_line rt theme_colors a base_props =
     (case s_left a of None \<Rightarrow> None | Some l \<Rightarrow>
      case s_top a of None \<Rightarrow> None | Some t \<Rightarrow>
      case s_width a of None \<Rightarrow> None | Some w \<Rightarrow>
      case s_height a of None \<Rightarrow> None | Some h \<Rightarrow>
       (let start_x = to_scalar rt l;
            start_y = to_scalar rt t;
            end_x = to_scalar rt (l + w);
            end_y = to_scalar rt (t + h);
            shape_data = AList.update ''fill'' (PStr ''transparent'')
                           (AList.update ''path'' (PPath [MoveTo start_x start_y, LineTo end_x end_y])
                              (AList.update ''type'' (PStr ''path'') base_props))
        in Some (dict_update shape_data (line_defaults (get_line_properties rt theme_colors a)))))"

text \<open>
  \<open>process_shape\<close>: the base properties, over them what the advanced properties
  convert to, then one branch by the shape's type. \<open>None\<close> is the source's \<open>None\<close>,
  returned by a branch or by the handler of an exception: that of the base properties
  comes before the type is looked at, so it drops a shape of any type.
\<close>

fun process_shape :: "runtime \<Rightarrow> (string \<times> string) list \<Rightarrow> shape \<Rightarrow> pydict option" where
  "process_shape rt theme_colors (Shape a cs) =
     (case get_base_properties rt a of
        None \<Rightarrow> None
      | Some base_props \<Rightarrow>
         (let base_props = (case extract_shape_properties rt (s_element a) of
                              None \<Rightarrow> base_props
                            | Some advanced_props \<Rightarrow>
                                dict_update base_props (convert_to_fabric rt advanced_props))
          in case s_shape_type a of
               GROUP \<Rightarrow> process_group base_props (map (process_shape rt theme_colors) cs)
             | PICTURE \<Rightarrow> process_picture rt a base_props
             | TEXT_BOX \<Rightarrow> process_textbox rt theme_colors a base_props
             | AUTO_SHAPE \<Rightarrow> process_autoshape rt theme_colors a base_props
             | FREEFORM \<Rightarrow> process_freeform rt theme_colors a base_props
             | LINE \<Rightarrow> process_line rt theme_colors a base_props
             | OTHER_SHAPE_TYPE \<Rightarrow> None))"

declare process_shape.simps [simp del]

section \<open>The forward assembly (\<open>pptx_fabric_converter.py\<close>, \<open>pptx_to_fabric\<close>)\<close>

text \<open>
  A slide: its shapes, and what \<open>get_shape_color(slide.background)\<close> reads when
  \<open>hasattr(slide, 'background') and slide.background.fill\<close> holds. A presentation: the
  slide size, the root element of the theme part of the first slide's layout, the slides.
\<close>

record slide =
  sl_background :: "fill_attr option"
  sl_shapes :: "shape list"

record presentation =
  prs_slide_width :: int
  prs_slide_height :: int
  prs_theme :: "xml option"
  prs_slides :: "slide list"

definition get_slide_background :: "(string \<times> string) list \<Rightarrow> slide \<Rightarrow> pyval" where
  "get_slide_background theme_colors s =
     (case sl_background s of
        None \<Rightarrow> PNone
      | Some bg \<Rightarrow>
          (let fill_color = get_shape_color theme_colors bg
           in if fill_color \<noteq> [] then
                PDict [(''type'', PStr ''rect''), (''left'', PNum 0), (''top'', PNum 0),
                       (''width'', PStr ''100%''), (''height'', PStr ''100%''),
                       (''fill'', PStr fill_color), (''selectable'', PBool False)]
              else PNone))"

text \<open>
  The loop over the shapes of a slide: the children of a group are spliced into the
  slide's list. \<open>shape_data["type"]\<close> and \<open>shape_data["objects"]\<close> raise where the
  key is missing, and nothing catches that short of the caller.
\<close>

definition add_shape_data :: "pyval list \<Rightarrow> pydict option \<Rightarrow> py_error + pyval list" where
  "add_shape_data objects r =
     (case r of
        None \<Rightarrow> Inr objects
      | Some shape_data \<Rightarrow>
          if shape_data = [] then Inr objects
          else
            (case dict_get shape_data ''type'' of
               None \<Rightarrow> Inl KeyError
             | Some t \<Rightarrow>
                 if t = PStr ''group'' then
                   (case dict_get shape_data ''objects'' of
                      None \<Rightarrow> Inl KeyError
                    | Some (PList kids) \<Rightarrow> Inr (objects @ kids)
                    | Some other \<Rightarrow> Inl TypeError)
                 else Inr (objects @ [PDict shape_data])))"

fun slide_objects ::
  "runtime \<Rightarrow> (string \<times> string) list \<Rightarrow> pyval list \<Rightarrow> shape list \<Rightarrow> py_error + pyval list" where
  "slide_objects rt theme_colors objects [] = Inr objects"
| "slide_objects rt theme_colors objects (s # ss) =
     (case add_shape_data objects (process_shape rt theme_colors s) of
        Inl e \<Rightarrow> Inl e
      | Inr objects' \<Rightarrow> slide_objects rt theme_colors objects' ss)"

definition slide_to_fabric ::
  "runtime \<Rightarrow> (string \<times> string) list \<Rightarrow> presentation \<Rightarrow> nat \<Rightarrow> slide \<Rightarrow> py_error + pyval" where
  "slide_to_fabric rt theme_colors prs slide_index s =
     (case slide_objects rt theme_colors [] (sl_shapes s) of
        Inl e \<Rightarrow> Inl e
      | Inr objects \<Rightarrow>
          Inr (PDict
            [(''objects'', PList objects),
             (''width'', PNum (to_scalar rt (prs_slide_width prs))),
             (''height'', PNum (to_scalar rt (prs_slide_height prs))),
             (''slideNumber'', PNum (real (slide_index + 1))),
             (''background'', get_slide_background theme_colors s)]))"

fun slides_to_fabric ::
  "runtime \<Rightarrow> (string \<times> string) list \<Rightarrow> presentation \<Rightarrow> nat \<Rightarrow> slide list \<Rightarrow> py_error + pyval list" where
  "slides_to_fabric rt theme_colors prs i [] = Inr []"
| "slides_to_fabric rt theme_colors prs i (s # ss) =
     (case slide_to_fabric rt theme_colors prs i s of
        Inl e \<Rightarrow> Inl e
      | Inr d \<Rightarrow>
          (case slides_to_fabric rt theme_colors prs (i + 1) ss of
             Inl e \<Rightarrow> Inl e
           | Inr ds \<Rightarrow> Inr (d # ds)))"

text \<open>
  \<open>pptx_to_fabric\<close>, from the presentation the library has loaded. \<open>Inl\<close> is the
  exception it raises again to its caller.
\<close>

definition pptx_to_fabric :: "runtime \<Rightarrow> presentation \<Rightarrow> py_error + pyval list" where
  "pptx_to_fabric rt prs =
     slides_to_fabric rt (extract_theme_colors (prs_theme prs)) prs 0 (prs_slides prs)"

section \<open>The reverse builder (\<open>pptx_fabric_converter.py\<close>)\<close>

text \<open>
  The names the module binds at its top level. It imports \<open>MSO_SHAPE_TYPE\<close> from the
  library's shape enumerations, and not \<open>MSO_SHAPE\<close>.
\<close>

definition pptx_fabric_converter_globals :: "string list" where
  "pptx_fabric_converter_globals =
     [''Presentation'', ''Pt'', ''Inches'', ''MSO_SHAPE_TYPE'', ''RGBColor'', ''json'', ''base64'',
      ''re'', ''io'', ''zipfile'', ''tempfile'', ''shutil'', ''os'', ''ColorHandler'',
      ''TextHandler'', ''ShapeHandler'', ''PPTXFabricConverter'']"

definition starts_with :: "string \<Rightarrow> string \<Rightarrow> bool" where
  "starts_with p s \<longleftrightarrow> take (length p) s = p"

text \<open>\<open>str.lower\<close> on ASCII.\<close>

definition lower_char :: "char \<Rightarrow> char" where
  "lower_char c =
     (case map_of (zip ''ABCDEFGHIJKLMNOPQRSTUVWXYZ'' ''abcdefghijklmnopqrstuvwxyz'') c of
        None \<Rightarrow> c | Some l \<Rightarrow> l)"

definition lower :: "string \<Rightarrow> string" where
  "lower s = map lower_char s"

text \<open>\<open>re.findall(r'\d+', s)\<close>: the maximal runs of digits.\<close>

definition is_digit :: "char \<Rightarrow> bool" where
  "is_digit c \<longleftrightarrow> digit_val 10 c \<noteq> None"

fun digit_runs :: "string \<Rightarrow> string \<Rightarrow> string list" where
  "digit_runs cur [] = (if cur = [] then [] else [cur])"
| "digit_runs cur (c # cs) =
     (if is_digit c then digit_runs (cur @ [c]) cs
      else (if cur = [] then [] else [cur]) @ digit_runs [] cs)"

text \<open>\<open>s.split(c)\<close>.\<close>

fun split_on :: "char \<Rightarrow> string \<Rightarrow> string \<Rightarrow> string list" where
  "split_on c cur [] = [cur]"
| "split_on c cur (x # xs) =
     (if x = c then cur # split_on c [] xs else split_on c (cur @ [x]) xs)"

text \<open>
  \<open>_parse_color\<close>: the tuple of integers, \<open>None\<close> for a value that is no string, for
  a string that starts with neither \<open>#\<close> nor \<open>rgb\<close>, and from the \<open>except\<close> branch.
\<close>

definition parse_color :: "pyval \<Rightarrow> int list option" where
  "parse_color color =
     (case color of
        PStr s \<Rightarrow>
          if starts_with ''#'' s then
            (let c = dropWhile (\<lambda>x. x = CHR ''#'') s
             in those (map (\<lambda>i. py_int_base 16 (take 2 (drop i c))) [0, 2, 4]))
          else if starts_with ''rgb'' s then those (map py_int (digit_runs [] s))
          else None
      | _ \<Rightarrow> None)"

text \<open>
  \<open>RGBColor(*color)\<close>: three integers between 0 and 255; \<open>None\<close> is the
  \<open>TypeError\<close> or \<open>ValueError\<close> it raises otherwise.
\<close>

definition RGBColor :: "int list \<Rightarrow> (nat \<times> nat \<times> nat) option" where
  "RGBColor c =
     (case c of
        [r, g, b] \<Rightarrow>
          if 0 \<le> r \<and> r \<le> 255 \<and> 0 \<le> g \<and> g \<le> 255 \<and> 0 \<le> b \<and> b \<le> 255
          then Some (nat r, nat g, nat b) else None
      | _ \<Rightarrow> None)"

text \<open>
  \<open>Pt(v)\<close>, that is \<open>int(v * 12700)\<close>, and \<open>float(v)\<close> on a value of the scene
  object; \<open>None\<close> is the exception they raise.
\<close>

fun Pt_of :: "runtime \<Rightarrow> pyval \<Rightarrow> int option" where
  "Pt_of rt (PNum r) = Some (Pt rt r)"
| "Pt_of rt (PBool b) = Some (if b then 12700 else 0)"
| "Pt_of rt (PStr s) = py_int (concat (replicate 12700 s))"
| "Pt_of rt _ = None"

fun py_float :: "runtime \<Rightarrow> pyval \<Rightarrow> real option" where
  "py_float rt (PNum r) = Some r"
| "py_float rt (PBool b) = Some (if b then 1 else 0)"
| "py_float rt (PStr s) = float_of_str rt s"
| "py_float rt _ = None"

text \<open>
  A shape of the document being built, as what the code has asked the library to set on
  it: its kind, its position and size, and the fill, line, text and rotation settings.
  (What the library does with a value it is given is its own business.)
\<close>

datatype pptx_shape_kind = Textbox | AutoShape string | Picture string

record pptx_shape =
  k_kind :: pptx_shape_kind
  k_left :: int
  k_top :: int
  k_width :: int
  k_height :: int
  k_rotation :: "real option"
  k_fill_solid :: bool
  k_fill_rgb :: "(nat \<times> nat \<times> nat) option"
  k_line_rgb :: "(nat \<times> nat \<times> nat) option"
  k_line_width :: "int option"
  k_text :: "pyval option"
  k_font_size :: "int option"
  k_font_name :: "pyval option"
  k_font_rgb :: "(nat \<times> nat \<times> nat) option"
  k_bold :: "bool option"
  k_italic :: "bool option"
  k_alignment :: "string option"

definition new_shape :: "pptx_shape_kind \<Rightarrow> int \<times> int \<times> int \<times> int \<Rightarrow> pptx_shape" where
  "new_shape kind g =
     (case g of (l, t, w, h) \<Rightarrow>
        \<lparr> k_kind = kind, k_left = l, k_top = t, k_width = w, k_height = h, k_rotation = None,
          k_fill_solid = False, k_fill_rgb = None, k_line_rgb = None, k_line_width = None,
          k_text = None, k_font_size = None, k_font_name = None, k_font_rgb = None,
          k_bold = None, k_italic = None, k_alignment = None \<rparr>)"

text \<open>
  A step of a setter: \<open>Inr\<close> the shape when the step is done, \<open>Inl\<close> the shape as it
  is when the step raises. The setters catch every exception, so what has been set stays.
\<close>

definition and_then :: "'s + 's \<Rightarrow> ('s \<Rightarrow> 's + 's) \<Rightarrow> 's + 's" where
  "and_then r f = (case r of Inl s \<Rightarrow> Inl s | Inr s \<Rightarrow> f s)"

definition outcome :: "'s + 's \<Rightarrow> 's" where
  "outcome r = (case r of Inl s \<Rightarrow> s | Inr s \<Rightarrow> s)"

text \<open>\<open>if "fill" in obj: ...\<close> of \<open>_set_shape_properties\<close>.\<close>

definition set_fill :: "pydict \<Rightarrow> pptx_shape \<Rightarrow> pptx_shape + pptx_shape" where
  "set_fill obj shape =
     (case dict_get obj ''fill'' of
        None \<Rightarrow> Inr shape
      | Some f \<Rightarrow>
          (case parse_color f of
             None \<Rightarrow> Inr shape
           | Some color \<Rightarrow>
               if color \<noteq> [] then
                 (case RGBColor color of
                    None \<Rightarrow> Inl (shape\<lparr> k_fill_solid := True \<rparr>)
                  | Some rgb \<Rightarrow> Inr (shape\<lparr> k_fill_solid := True, k_fill_rgb := Some rgb \<rparr>))
               else Inr shape))"

text \<open>\<open>if "stroke" in obj: ...\<close> of \<open>_set_shape_properties\<close>.\<close>

definition set_stroke :: "runtime \<Rightarrow> pydict \<Rightarrow> pptx_shape \<Rightarrow> pptx_shape + pptx_shape" where
  "set_stroke rt obj shape =
     (case dict_get obj ''stroke'' of
        None \<Rightarrow> Inr shape
      | Some st \<Rightarrow>
          and_then
            (case parse_color st of
               None \<Rightarrow> Inr shape
             | Some color \<Rightarrow>
                 if color \<noteq> [] then
                   (case RGBColor color of
                      None \<Rightarrow> Inl shape
                    | Some rgb \<Rightarrow> Inr (shape\<lparr> k_line_rgb := Some rgb \<rparr>))
                 else Inr shape)
            (\<lambda>shape.
               case dict_get obj ''strokeWidth'' of
                 None \<Rightarrow> Inr shape
               | Some v \<Rightarrow>
                   (case Pt_of rt v of
                      None \<Rightarrow> Inl shape
                    | Some w \<Rightarrow> Inr (shape\<lparr> k_line_width := Some w \<rparr>))))"

definition set_shape_properties :: "runtime \<Rightarrow> pptx_shape \<Rightarrow> pydict \<Rightarrow> pptx_shape" where
  "set_shape_properties rt shape obj = outcome (and_then (set_fill obj shape) (set_stroke rt obj))"

text \<open>\<open>_get_alignment\<close>: the member of \<open>PP_ALIGN\<close>; \<open>None\<close> when \<open>align\<close> has no \<open>lower\<close>.\<close>

definition get_alignment :: "pyval \<Rightarrow> string option" where
  "get_alignment align =
     (case align of
        PStr s \<Rightarrow>
          Some (case map_of [(''left'', ''LEFT''), (''center'', ''CENTER''), (''right'', ''RIGHT''),
                             (''justify'', ''JUSTIFY'')] (lower s) of
                  None \<Rightarrow> ''LEFT'' | Some m \<Rightarrow> m)
      | _ \<Rightarrow> None)"

definition set_text_properties :: "runtime \<Rightarrow> pptx_shape \<Rightarrow> pydict \<Rightarrow> pptx_shape" where
  "set_text_properties rt shape obj =
     (case dict_get obj ''text'' of
        None \<Rightarrow> shape
      | Some t \<Rightarrow>
          outcome
           (and_then (and_then (and_then (and_then (and_then (and_then
              (Inr (shape\<lparr> k_text := Some t \<rparr>))
              (\<lambda>s. case dict_get obj ''fontSize'' of
                      None \<Rightarrow> Inr s
                    | Some v \<Rightarrow> (case Pt_of rt v of
                                   None \<Rightarrow> Inl s
                                 | Some n \<Rightarrow> Inr (s\<lparr> k_font_size := Some n \<rparr>))))
              (\<lambda>s. case dict_get obj ''fontFamily'' of
                      None \<Rightarrow> Inr s
                    | Some v \<Rightarrow> Inr (s\<lparr> k_font_name := Some v \<rparr>)))
              (\<lambda>s. case dict_get obj ''fill'' of
                      None \<Rightarrow> Inr s
                    | Some v \<Rightarrow>
                        (case parse_color v of
                           None \<Rightarrow> Inr s
                         | Some color \<Rightarrow>
                             if color \<noteq> [] then
                               (case RGBColor color of
                                  None \<Rightarrow> Inl s
                                | Some rgb \<Rightarrow> Inr (s\<lparr> k_font_rgb := Some rgb \<rparr>))
                             else Inr s)))
              (\<lambda>s. case dict_get obj ''fontWeight'' of
                      None \<Rightarrow> Inr s
                    | Some v \<Rightarrow> Inr (s\<lparr> k_bold := Some (v = PStr ''bold'') \<rparr>)))
              (\<lambda>s. case dict_get obj ''fontStyle'' of
                      None \<Rightarrow> Inr s
                    | Some v \<Rightarrow> Inr (s\<lparr> k_italic := Some (v = PStr ''italic'') \<rparr>)))
              (\<lambda>s. case dict_get obj ''textAlign'' of
                      None \<Rightarrow> Inr s
                    | Some v \<Rightarrow> (case get_alignment v of
                                   None \<Rightarrow> Inl s
                                 | Some m \<Rightarrow> Inr (s\<lparr> k_alignment := Some m \<rparr>)))))"

text \<open>\<open>Inches(obj[k] / 72)\<close> for the four keys, in the order the call evaluates them.\<close>

definition scalar_arg :: "runtime \<Rightarrow> pydict \<Rightarrow> string \<Rightarrow> int option" where
  "scalar_arg rt obj k = do { v \<leftarrow> dict_get obj k; r \<leftarrow> num_of v; Some (from_scalar rt r) }"

definition geometry_args :: "runtime \<Rightarrow> pydict \<Rightarrow> (int \<times> int \<times> int \<times> int) option" where
  "geometry_args rt obj =
     do {
       l \<leftarrow> scalar_arg rt obj ''left'';
       t \<leftarrow> scalar_arg rt obj ''top'';
       w \<leftarrow> scalar_arg rt obj ''width'';
       h \<leftarrow> scalar_arg rt obj ''height'';
       Some (l, t, w, h)
     }"

text \<open>\<open>if shape and "angle" in obj: shape.rotation = float(obj["angle"])\<close>.\<close>

definition set_rotation :: "runtime \<Rightarrow> pptx_shape \<Rightarrow> pydict \<Rightarrow> pptx_shape" where
  "set_rotation rt shape obj =
     (case dict_get obj ''angle'' of
        None \<Rightarrow> shape
      | Some v \<Rightarrow> (case py_float rt v of
                     None \<Rightarrow> shape
                   | Some r \<Rightarrow> shape\<lparr> k_rotation := Some r \<rparr>))"

text \<open>
  \<open>_create_shape_from_fabric\<close>, on the shapes of the slide so far. An exception
  leaves the slide with the shapes the library has already added. The branches for
  \<open>rect\<close> and \<open>path\<close> evaluate \<open>MSO_SHAPE.RECTANGLE\<close> and \<open>MSO_SHAPE.FREEFORM\<close> as the
  first argument of \<open>add_shape\<close>.
\<close>

definition create_shape_from_fabric :: "runtime \<Rightarrow> pptx_shape list \<Rightarrow> pyval \<Rightarrow> pptx_shape list" where
  "create_shape_from_fabric rt shapes ob =
     (case ob of
        PDict obj \<Rightarrow>
          (case dict_get obj ''type'' of
             None \<Rightarrow> shapes
           | Some ty \<Rightarrow>
               if ty = PStr ''textbox'' then
                 (case geometry_args rt obj of
                    None \<Rightarrow> shapes
                  | Some g \<Rightarrow>
                      shapes @ [set_rotation rt (set_text_properties rt (new_shape Textbox g) obj) obj])
               else if ty = PStr ''rect'' then
                 (case load_global pptx_fabric_converter_globals ''MSO_SHAPE'' of
                    Inl e \<Rightarrow> shapes
                  | Inr u \<Rightarrow>
                      (case geometry_args rt obj of
                         None \<Rightarrow> shapes
                       | Some g \<Rightarrow>
                           shapes @ [set_rotation rt
                                      (set_shape_properties rt (new_shape (AutoShape ''RECTANGLE'') g) obj)
                                      obj]))
               else if ty = PStr ''path'' then
                 (case load_global pptx_fabric_converter_globals ''MSO_SHAPE'' of
                    Inl e \<Rightarrow> shapes
                  | Inr u \<Rightarrow>
                      (case geometry_args rt obj of
                         None \<Rightarrow> shapes
                       | Some g \<Rightarrow>
                           shapes @ [set_rotation rt
                                      (set_shape_properties rt (new_shape (AutoShape ''FREEFORM'') g) obj)
                                      obj]))
               else if ty = PStr ''image'' then
                 (case dict_get obj ''src'' of
                    Some (PStr src) \<Rightarrow>
                      if starts_with ''data:image'' src then
                        (case split_on CHR '','' [] src of
                           s0 # s1 # rest \<Rightarrow>
                             (case b64decode rt s1 of
                                None \<Rightarrow> shapes
                              | Some img_data \<Rightarrow>
                                  (case geometry_args rt obj of
                                     None \<Rightarrow> shapes
                                   | Some g \<Rightarrow>
                                       shapes @ [set_rotation rt (new_shape (Picture img_data) g) obj]))
                         | _ \<Rightarrow> shapes)
                      else shapes
                  | _ \<Rightarrow> shapes)
               else shapes)
      | _ \<Rightarrow> shapes)"

text \<open>A slide of the document being built: its background and its shapes.\<close>

record pptx_slide =
  ps_background_solid :: bool
  ps_background_rgb :: "(nat \<times> nat \<times> nat) option"
  ps_shapes :: "pptx_shape list"

record pptx_presentation =
  pp_slide_width :: int
  pp_slide_height :: int
  pp_slides :: "pptx_slide list"

text \<open>\<open>_set_slide_background\<close>, when the slide data has a \<open>background\<close>.\<close>

definition set_slide_background :: "pptx_slide \<Rightarrow> pyval \<Rightarrow> pptx_slide" where
  "set_slide_background s background =
     (case background of
        PDict bg \<Rightarrow>
          (case dict_get bg ''fill'' of
             None \<Rightarrow> s
           | Some f \<Rightarrow>
               (case parse_color f of
                  None \<Rightarrow> s
                | Some color \<Rightarrow>
                    if color \<noteq> [] then
                      (case RGBColor color of
                         None \<Rightarrow> s\<lparr> ps_background_solid := True \<rparr>
                       | Some rgb \<Rightarrow> s\<lparr> ps_background_solid := True, ps_background_rgb := Some rgb \<rparr>)
                    else s))
      | _ \<Rightarrow> s)"

text \<open>
  One pass of \<open>for slide_data in fabric_data\<close>: a slide on the blank layout, its
  background, then its objects in order. \<open>Inl\<close> is an exception the function raises
  again.
\<close>

definition slide_from_fabric :: "runtime \<Rightarrow> pyval \<Rightarrow> py_error + pptx_slide" where
  "slide_from_fabric rt slide_data =
     (case slide_data of
        PDict sd \<Rightarrow>
          (let s0 = \<lparr> ps_background_solid = False, ps_background_rgb = None, ps_shapes = [] \<rparr>;
               s1 = (case dict_get sd ''background'' of
                       None \<Rightarrow> s0 | Some bg \<Rightarrow> set_slide_background s0 bg)
           in case dict_get sd ''objects'' of
                None \<Rightarrow> Inl KeyError
              | Some (PList objs) \<Rightarrow>
                  Inr (s1\<lparr> ps_shapes := foldl (create_shape_from_fabric rt) [] objs \<rparr>)
              | Some PNone \<Rightarrow> Inl TypeError
              | Some (PBool b) \<Rightarrow> Inl TypeError
              | Some (PNum r) \<Rightarrow> Inl TypeError
              | Some other \<Rightarrow> Inr s1)
      | _ \<Rightarrow> Inl TypeError)"

fun slides_from_fabric :: "runtime \<Rightarrow> pyval list \<Rightarrow> py_error + pptx_slide list" where
  "slides_from_fabric rt [] = Inr []"
| "slides_from_fabric rt (sd # sds) =
     (case slide_from_fabric rt sd of
        Inl e \<Rightarrow> Inl e
      | Inr s \<Rightarrow>
          (case slides_from_fabric rt sds of
             Inl e \<Rightarrow> Inl e
           | Inr ss \<Rightarrow> Inr (s # ss)))"

text \<open>\<open>fabric_to_pptx\<close> without a template.\<close>

definition fabric_to_pptx :: "runtime \<Rightarrow> pyval list \<Rightarrow> py_error + pptx_presentation" where
  "fabric_to_pptx rt fabric_data =
     (case fabric_data of
        [] \<Rightarrow> Inl IndexError
      | first # rest \<Rightarrow>
          (case first of
             PDict d \<Rightarrow>
               (case (dict_get d ''width'', dict_get d ''height'') of
                  (Some w, Some h) \<Rightarrow>
                    (case (Pt_of rt w, Pt_of rt h) of
                       (Some sw, Some sh) \<Rightarrow>
                         (case slides_from_fabric rt fabric_data of
                            Inl e \<Rightarrow> Inl e
                          | Inr ss \<Rightarrow>
                              Inr \<lparr> pp_slide_width = sw, pp_slide_height = sh, pp_slides = ss \<rparr>)
                     | _ \<Rightarrow> Inl TypeError)
                | _ \<Rightarrow> Inl KeyError)
           | _ \<Rightarrow> Inl TypeError))"

subsection \<open>What the claims about shapes speak of\<close>

text \<open>
  What the advanced properties of a shape convert to: the dictionary \<open>process_shape\<close>
  lays over the base properties, empty when no advanced properties are extracted.
\<close>

definition advanced_of :: "runtime \<Rightarrow> shape_attrs \<Rightarrow> pydict" where
  "advanced_of rt a =
     (case extract_shape_properties rt (s_element a) of
        None \<Rightarrow> []
      | Some advanced_props \<Rightarrow> convert_to_fabric rt advanced_props)"

text \<open>
  The base properties of a shape with that dictionary laid over them: what
  \<open>process_shape\<close> hands to the branch for the shape's type.
\<close>

definition base_of :: "runtime \<Rightarrow> shape_attrs \<Rightarrow> pydict option" where
  "base_of rt a = map_option (\<lambda>base_props. dict_update base_props (advanced_of rt a))
                    (get_base_properties rt a)"

text \<open>The results that are not \<open>None\<close>, in order.\<close>

definition non_dropped :: "'a option list \<Rightarrow> 'a list" where
  "non_dropped rs = concat (map (\<lambda>r. case r of None \<Rightarrow> [] | Some d \<Rightarrow> [d]) rs)"

text \<open>
  A shape without a fill: it has no \<open>fill\<close> attribute, or no fill element (the fill's
  type is \<open>None\<close>), or a fill of the background kind.
\<close>

definition unfilled :: "fill_attr \<Rightarrow> bool" where
  "unfilled sf =
     (case sf of
        NoFillAttr \<Rightarrow> True
      | FillNone \<Rightarrow> True
      | Fill f \<Rightarrow> fill_type f = None \<or> fill_type f = Some MSO_FILL_BACKGROUND)"

text \<open>
  Shapes to evaluate the dispatcher on. The rectangle is the one of the round-trip
  scenario: at (100, 100) points, 200 by 50 points, filled in red, with a black line of
  one point. Its element keeps the shape properties under \<open>p:spPr\<close>, as documents do.
\<close>

definition solid_fill :: "nat \<times> nat \<times> nat \<Rightarrow> fill_attr" where
  "solid_fill c =
     Fill \<lparr> fill_type = Some MSO_FILL_SOLID,
            fore_color = Some \<lparr> c_rgb = Some c, c_theme_color = Some ''NOT_THEME_COLOR (0)'' \<rparr> \<rparr>"

definition no_fill :: fill_attr where
  "no_fill = Fill \<lparr> fill_type = None, fore_color = None \<rparr>"

definition rect_attrs :: shape_attrs where
  "rect_attrs =
     \<lparr> s_shape_type = AUTO_SHAPE, s_left = Some 1270000, s_top = Some 1270000,
       s_width = Some 2540000, s_height = Some 635000, s_rotation = Some 0,
       s_fill = solid_fill (255, 0, 0),
       s_line = Some \<lparr> l_has_color = True, l_fill = solid_fill (0, 0, 0), l_width = Some 12700 \<rparr>,
       s_auto_shape_type = AutoShapeType ''RECTANGLE'',
       s_element = Some (Elem ''p:sp'' []
                     [Elem ''p:spPr'' []
                        [Elem ''a:prstGeom'' [(''prst'', ''rect'')] [],
                         Elem ''a:solidFill'' [] [Elem ''a:srgbClr'' [(''val'', ''FF0000'')] []]]]),
       s_image = None, s_text_props = [] \<rparr>"

definition picture_attrs :: shape_attrs where
  "picture_attrs =
     rect_attrs\<lparr> s_shape_type := PICTURE, s_fill := NoFillAttr,
                 s_auto_shape_type := NoAutoShapeType, s_element := None,
                 s_image := Some \<lparr> img_blob = ''PNG'', img_content_type = ''image/png'' \<rparr> \<rparr>"

definition textbox_attrs :: shape_attrs where
  "textbox_attrs =
     rect_attrs\<lparr> s_shape_type := TEXT_BOX, s_fill := no_fill,
                 s_auto_shape_type := NoAutoShapeType, s_element := None,
                 s_text_props := three_runs \<rparr>"

definition group_attrs :: shape_attrs where
  "group_attrs =
     rect_attrs\<lparr> s_shape_type := GROUP, s_fill := NoFillAttr, s_line := None,
                 s_auto_shape_type := NoAutoShapeType, s_element := None \<rparr>"

definition other_attrs :: shape_attrs where
  "other_attrs = rect_attrs\<lparr> s_shape_type := OTHER_SHAPE_TYPE \<rparr>"

text \<open>A group whose element has no \<open>a:xfrm\<close>: the library reads its position and size as \<open>None\<close>.\<close>

definition bare_group_attrs :: shape_attrs where
  "bare_group_attrs =
     group_attrs\<lparr> s_left := None, s_top := None, s_width := None, s_height := None \<rparr>"

text \<open>The rectangle with the shadow and the glow in an element the extraction finds.\<close>

definition shadow_and_glow_attrs :: shape_attrs where
  "shadow_and_glow_attrs = rect_attrs\<lparr> s_element := Some shadow_and_glow_shape \<rparr>"

text \<open>The scene object of the rectangle.\<close>

definition rect_object :: pydict where
  "rect_object =
     [(''left'', PNum 100), (''top'', PNum 100), (''width'', PNum 200), (''height'', PNum 50),
      (''rotation'', PNum 0), (''type'', PStr ''rect''), (''fill'', PStr ''#ff0000''),
      (''stroke'', PStr ''#000000''), (''strokeWidth'', PNum 1)]"

text \<open>A presentation of one slide, 720 by 540 points, with the rectangle on it.\<close>

definition one_rect_presentation :: presentation where
  "one_rect_presentation =
     \<lparr> prs_slide_width = 9144000, prs_slide_height = 6858000, prs_theme = None,
       prs_slides = [\<lparr> sl_background = None, sl_shapes = [Shape rect_attrs []] \<rparr>] \<rparr>"

text \<open>The scene object of a text box, as the reverse builder may be given it.\<close>

definition textbox_object :: pydict where
  "textbox_object =
     [(''left'', PNum 100), (''top'', PNum 100), (''width'', PNum 200), (''height'', PNum 50),
      (''type'', PStr ''textbox''), (''text'', PStr ''abc''), (''fontSize'', PNum 12),
      (''fontFamily'', PStr ''Arial''), (''textAlign'', PStr ''center''), (''fill'', PStr ''#ff0000'')]"

definition one_rect_fabric :: "pyval list" where
  "one_rect_fabric =
     [PDict [(''objects'', PList [PDict rect_object]), (''width'', PNum 720), (''height'', PNum 540),
             (''slideNumber'', PNum 1), (''background'', PNone)]]"

section \<open>Verification\<close>

subsection \<open>Units\<close>

lemma fl_ok_rt0: "fl_ok rt0"
  by (simp add: fl_ok_def rt0_def)

lemma set_iter_ok_rt0: "set_iter_ok rt0"
  by (simp add: set_iter_ok_def rt0_def)

lemma trunc_near:
  assumes "\<bar>e - real_of_int x\<bar> < 1"
  shows "\<bar>py_trunc e - x\<bar> \<le> 1"
  using assms unfolding py_trunc_def by (auto simp: abs_if split: if_splits; linarith)

lemma fl_rel:
  assumes ok: "fl_ok rt" and lo: "1 / 2 ^ 30 \<le> \<bar>r\<bar>" and hi: "\<bar>r\<bar> \<le> 2 ^ 70"
  shows "\<bar>fl rt r - r\<bar> \<le> \<bar>r\<bar> / 2 ^ 53"
proof -
  have "(1::real) / 2 ^ 1022 \<le> 1 / 2 ^ 30" by simp
  moreover have "(2::real) ^ 70 \<le> 2 ^ 1023" by simp
  ultimately show ?thesis using ok lo hi unfolding fl_ok_def
    by (meson order_trans)
qed

text \<open>
  Three rounded operations lie between a native length and the float that is truncated
  on the way back. Each adds a relative error of at most \<open>2\<^sup>-\<^sup>5\<^sup>3\<close>, so the float stays
  within 1 of the length.
\<close>

lemma round_trip_err:
  assumes ok: "fl_ok rt" and x0: "x \<noteq> 0" and xb: "\<bar>x\<bar> \<le> 2 ^ 50"
  shows "\<bar>fl rt (fl rt (to_scalar rt x / 72) * 914400) - real_of_int x\<bar> < 1"
proof -
  define X where "X = \<bar>real_of_int x\<bar>"
  define a where "a = real_of_int x / 12700"
  define s where "s = fl rt a"
  define b where "b = s / 72"
  define i where "i = fl rt b"
  define c where "c = i * 914400"
  define e where "e = fl rt c"
  have "1 \<le> \<bar>x\<bar>" using x0 by simp
  then have X1: "1 \<le> X" unfolding X_def by (metis of_int_1_le_iff of_int_abs)
  have "real_of_int \<bar>x\<bar> \<le> real_of_int (2 ^ 50)" using xb by (simp only: of_int_le_iff)
  then have Xb: "X \<le> 1125899906842624" unfolding X_def by simp
  have absa: "\<bar>a\<bar> = X / 12700" unfolding a_def X_def by simp
  have sa: "\<bar>s - a\<bar> \<le> \<bar>a\<bar> / 2 ^ 53"
  proof -
    have "1 / 2 ^ 30 \<le> \<bar>a\<bar>" using X1 unfolding absa by simp
    moreover have "\<bar>a\<bar> \<le> 2 ^ 70" using Xb unfolding absa by simp
    ultimately show ?thesis using fl_rel[OF ok, of a] unfolding s_def by simp
  qed
  have abss: "\<bar>s\<bar> \<le> X / 12700 + X / 12700 / 2 ^ 53" "X / 12700 - X / 12700 / 2 ^ 53 \<le> \<bar>s\<bar>"
    using sa absa by (simp_all add: abs_if split: if_splits)
  have absb: "\<bar>b\<bar> = \<bar>s\<bar> / 72" unfolding b_def by simp
  have ib: "\<bar>i - b\<bar> \<le> \<bar>b\<bar> / 2 ^ 53"
  proof -
    have "1 / 2 ^ 30 \<le> \<bar>b\<bar>" using abss(2) X1 unfolding absb by simp
    moreover have "\<bar>b\<bar> \<le> 2 ^ 70" using abss(1) Xb unfolding absb by simp
    ultimately show ?thesis using fl_rel[OF ok, of b] unfolding i_def by simp
  qed
  have absi: "\<bar>i\<bar> \<le> \<bar>b\<bar> + \<bar>b\<bar> / 2 ^ 53" "\<bar>b\<bar> - \<bar>b\<bar> / 2 ^ 53 \<le> \<bar>i\<bar>"
    using ib by (simp_all add: abs_if split: if_splits)
  have absc: "\<bar>c\<bar> = \<bar>i\<bar> * 914400" unfolding c_def by (simp add: abs_mult)
  have ec: "\<bar>e - c\<bar> \<le> \<bar>c\<bar> / 2 ^ 53"
  proof -
    have "1 / 2 ^ 30 \<le> \<bar>c\<bar>" using absi(2) abss(2) X1 unfolding absc absb by simp
    moreover have "\<bar>c\<bar> \<le> 2 ^ 70" using absi(1) abss(1) Xb unfolding absc absb by simp
    ultimately show ?thesis using fl_rel[OF ok, of c] unfolding e_def by simp
  qed
  have x_eq: "real_of_int x = a * 12700" unfolding a_def by simp
  have c_eq: "c = i * 914400" "b * 72 = s" unfolding c_def b_def by simp_all
  have "\<bar>e - real_of_int x\<bar> < 1"
    using ec ib sa absc absb abss absi Xb X1 x_eq c_eq absa by (simp add: abs_if split: if_splits)
  then show ?thesis unfolding e_def c_def i_def b_def s_def a_def to_scalar_def .
qed

lemma unit_round_trip_exact:
  assumes "fl rt = (\<lambda>r. r)"
  shows "from_scalar rt (to_scalar rt x) = x"
  using assms by (simp add: from_scalar_def to_scalar_def Inches_def py_trunc_def)

text \<open>
  Claim C7. A native length \<open>x\<close> (within \<open>2\<^sup>5\<^sup>0\<close> in magnitude, which covers every
  coordinate a document can store) that is divided by 12700 on the way forward and taken
  through \<open>Inches(s / 72)\<close> on the way back returns as \<open>x\<close> up to one unit, whatever the
  float rounding of the three operations does within its error bound.
\<close>

theorem unit_round_trip:
  assumes "fl_ok rt" and "\<bar>x\<bar> \<le> 2 ^ 50"
  shows "\<bar>from_scalar rt (to_scalar rt x) - x\<bar> \<le> 1"
proof (cases "x = 0")
  case True
  then show ?thesis
    using assms(1) by (simp add: from_scalar_def to_scalar_def Inches_def py_trunc_def fl_ok_def)
next
  case False
  then show ?thesis
    unfolding from_scalar_def Inches_def
    using round_trip_err[OF assms(1) False assms(2)] by (intro trunc_near)
qed

theorem unit_round_trip_witness:
  "fl_ok rt0 \<and> \<bar>1270000::int\<bar> \<le> 2 ^ 50 \<and> \<bar>from_scalar rt0 (to_scalar rt0 1270000) - 1270000\<bar> \<le> 1"
proof -
  have b: "\<bar>1270000::int\<bar> \<le> 2 ^ 50" by simp
  show ?thesis using unit_round_trip[OF fl_ok_rt0 b] fl_ok_rt0 b by simp
qed

subsection \<open>Text\<close>

lemma foldl_max_key:
  fixes f :: "'a \<Rightarrow> nat"
  shows "foldl (\<lambda>best y. if f best < f y then y else best) b ys \<in> set (b # ys) \<and>
   (\<forall>w \<in> set (b # ys). f w \<le> f (foldl (\<lambda>best y. if f best < f y then y else best) b ys))"
proof (induction ys arbitrary: b)
  case Nil
  then show ?case by simp
next
  case (Cons y ys)
  show ?case using Cons.IH[of "if f b < f y then y else b"]
    by (auto split: if_splits simp: not_less intro: order_trans less_imp_le)
qed

lemma py_max_key_is_max:
  assumes "xs \<noteq> []"
  shows "\<exists>v. py_max_key f xs = Some v \<and> v \<in> set xs \<and> (\<forall>w \<in> set xs. f w \<le> f v)"
proof -
  obtain x xs' where "xs = x # xs'" using assms by (cases xs) auto
  then show ?thesis using foldl_max_key[of f x xs'] by simp
qed

lemma most_common_is_mode:
  assumes "set_iter_ok rt" and "xs \<noteq> []"
  shows "\<exists>v. most_common rt xs = Some v \<and> v \<in> set xs \<and>
             (\<forall>w \<in> set xs. count_list xs w \<le> count_list xs v)"
proof -
  have s: "set (set_iter rt xs) = set xs" using assms(1) by (simp add: set_iter_ok_def)
  then have "set_iter rt xs \<noteq> []" using assms(2) by auto
  from py_max_key_is_max[OF this, of "count_list xs"] show ?thesis
    unfolding most_common_def s by simp
qed

lemma add_run_lists:
  "a_font_sizes (foldl (add_run al) acc rs) =
     a_font_sizes acc @ map (f_size \<circ> r_font) (filter (\<lambda>r. r_text r \<noteq> []) rs)"
  "a_font_families (foldl (add_run al) acc rs) =
     a_font_families acc @ map (f_name \<circ> r_font) (filter (\<lambda>r. r_text r \<noteq> []) rs)"
  "a_colors (foldl (add_run al) acc rs) =
     a_colors acc @ map (f_color \<circ> r_font) (filter (\<lambda>r. r_text r \<noteq> []) rs)"
  "a_alignments (foldl (add_run al) acc rs) = a_alignments acc"
  by (induction rs arbitrary: acc; simp add: add_run_def Let_def)+

lemma add_paragraph_lists:
  "a_font_sizes (foldl (add_paragraph lp) acc ps) =
     a_font_sizes acc @ map (f_size \<circ> r_font) (nonempty_runs ps)"
  "a_font_families (foldl (add_paragraph lp) acc ps) =
     a_font_families acc @ map (f_name \<circ> r_font) (nonempty_runs ps)"
  "a_colors (foldl (add_paragraph lp) acc ps) =
     a_colors acc @ map (f_color \<circ> r_font) (nonempty_runs ps)"
  "a_alignments (foldl (add_paragraph lp) acc ps) =
     a_alignments acc @ map (PStr \<circ> p_align) ps"
  by (induction ps arbitrary: acc;
      simp add: add_paragraph_def Let_def add_run_lists nonempty_runs_def)+

lemma walk_lists:
  "a_font_sizes (walk_paragraphs ps) = map (f_size \<circ> r_font) (nonempty_runs ps)"
  "a_font_families (walk_paragraphs ps) = map (f_name \<circ> r_font) (nonempty_runs ps)"
  "a_colors (walk_paragraphs ps) = map (f_color \<circ> r_font) (nonempty_runs ps)"
  "a_alignments (walk_paragraphs ps) = map (PStr \<circ> p_align) ps"
  by (simp_all add: walk_paragraphs_def add_paragraph_lists text_acc0_def)

lemma dict_get_update:
  "dict_get (AList.update k v d) k' = (if k' = k then Some v else dict_get d k')"
  by (simp add: dict_get_def update_conv')

lemma set_default_spec:
  assumes ok: "set_iter_ok rt" and dflt: "dict_get d key = Some dflt"
  shows "\<exists>d'. set_default rt key xs d = Some d' \<and>
              mode_or_default dflt xs (dict_get d' key) \<and>
              (\<forall>k. k \<noteq> key \<longrightarrow> dict_get d' k = dict_get d k)"
proof (cases "xs = []")
  case True
  then show ?thesis using dflt by (simp add: set_default_def mode_or_default_def)
next
  case False
  from most_common_is_mode[OF ok False] obtain m where
    m: "most_common rt xs = Some m" "m \<in> set xs"
       "\<forall>w \<in> set xs. count_list xs w \<le> count_list xs m" by blast
  show ?thesis using False m
    by (simp add: set_default_def mode_or_default_def dict_get_update)
qed

lemma text_defaults_general:
  assumes ok: "set_iter_ok rt"
  shows "\<exists>d. convert_to_fabric_text rt ps = Some d \<and>
     mode_or_default (PNum 12) (map (f_size \<circ> r_font) (nonempty_runs ps)) (dict_get d ''fontSize'') \<and>
     mode_or_default (PStr ''Arial'') (map (f_name \<circ> r_font) (nonempty_runs ps)) (dict_get d ''fontFamily'') \<and>
     mode_or_default (PStr ''#000000'') (map (f_color \<circ> r_font) (nonempty_runs ps)) (dict_get d ''fill'') \<and>
     mode_or_default (PStr ''left'') (map (PStr \<circ> p_align) ps) (dict_get d ''textAlign'') \<and>
     dict_get d ''styles'' = Some (PIdxDict (a_styles (walk_paragraphs ps)))"
proof -
  define ft where "ft =
            [(''type'', PStr ''textbox''),
             (''text'', PStr (a_text (walk_paragraphs ps))),
             (''styles'', PIdxDict (a_styles (walk_paragraphs ps))),
             (''fontSize'', PNum 12),
             (''fontFamily'', PStr ''Arial''),
             (''textAlign'', PStr ''left''),
             (''fill'', PStr ''#000000''),
             (''originX'', PStr ''left''),
             (''originY'', PStr ''top'')]"
  have g: "dict_get ft ''fontSize'' = Some (PNum 12)"
          "dict_get ft ''fontFamily'' = Some (PStr ''Arial'')"
          "dict_get ft ''fill'' = Some (PStr ''#000000'')"
          "dict_get ft ''textAlign'' = Some (PStr ''left'')"
          "dict_get ft ''styles'' = Some (PIdxDict (a_styles (walk_paragraphs ps)))"
    by (simp_all add: ft_def dict_get_def)
  from set_default_spec[OF ok g(1), of "a_font_sizes (walk_paragraphs ps)"] obtain d1 where
    d1: "set_default rt ''fontSize'' (a_font_sizes (walk_paragraphs ps)) ft = Some d1"
        "mode_or_default (PNum 12) (a_font_sizes (walk_paragraphs ps)) (dict_get d1 ''fontSize'')"
        "\<forall>k. k \<noteq> ''fontSize'' \<longrightarrow> dict_get d1 k = dict_get ft k" by blast
  have g1: "dict_get d1 ''fontFamily'' = Some (PStr ''Arial'')" using d1(3) g(2) by simp
  from set_default_spec[OF ok g1, of "a_font_families (walk_paragraphs ps)"] obtain d2 where
    d2: "set_default rt ''fontFamily'' (a_font_families (walk_paragraphs ps)) d1 = Some d2"
        "mode_or_default (PStr ''Arial'') (a_font_families (walk_paragraphs ps)) (dict_get d2 ''fontFamily'')"
        "\<forall>k. k \<noteq> ''fontFamily'' \<longrightarrow> dict_get d2 k = dict_get d1 k" by blast
  have g2: "dict_get d2 ''fill'' = Some (PStr ''#000000'')" using d2(3) d1(3) g(3) by simp
  from set_default_spec[OF ok g2, of "a_colors (walk_paragraphs ps)"] obtain d3 where
    d3: "set_default rt ''fill'' (a_colors (walk_paragraphs ps)) d2 = Some d3"
        "mode_or_default (PStr ''#000000'') (a_colors (walk_paragraphs ps)) (dict_get d3 ''fill'')"
        "\<forall>k. k \<noteq> ''fill'' \<longrightarrow> dict_get d3 k = dict_get d2 k" by blast
  have g3: "dict_get d3 ''textAlign'' = Some (PStr ''left'')" using d3(3) d2(3) d1(3) g(4) by simp
  from set_default_spec[OF ok g3, of "a_alignments (walk_paragraphs ps)"] obtain d4 where
    d4: "set_default rt ''textAlign'' (a_alignments (walk_paragraphs ps)) d3 = Some d4"
        "mode_or_default (PStr ''left'') (a_alignments (walk_paragraphs ps)) (dict_get d4 ''textAlign'')"
        "\<forall>k. k \<noteq> ''textAlign'' \<longrightarrow> dict_get d4 k = dict_get d3 k" by blast
  have r: "convert_to_fabric_text rt ps = Some d4"
    using d1(1) d2(1) d3(1) d4(1) unfolding convert_to_fabric_text_def ft_def by (simp add: Let_def)
  have "dict_get d4 ''fontSize'' = dict_get d1 ''fontSize''" using d4(3) d3(3) d2(3) by simp
  moreover have "dict_get d4 ''fontFamily'' = dict_get d2 ''fontFamily''" using d4(3) d3(3) by simp
  moreover have "dict_get d4 ''fill'' = dict_get d3 ''fill''" using d4(3) by simp
  moreover have "dict_get d4 ''styles'' = dict_get ft ''styles''" using d4(3) d3(3) d2(3) d1(3) by simp
  ultimately show ?thesis using r d1(2) d2(2) d3(2) d4(2) g(5) by (simp add: walk_lists)
qed

lemma three_runs_sizes:
  "map (f_size \<circ> r_font) (nonempty_runs three_runs) = [PNum 12, PNum 12, PNum 18]"
  by (simp add: nonempty_runs_def three_runs_def para_of_def plain_run_def)

lemma three_runs_styles:
  "\<exists>style. dict_get (a_styles (walk_paragraphs three_runs)) 2 = Some (PDict style) \<and>
           dict_get style ''fontSize'' = Some (PNum 18)"
  by (simp add: three_runs_def walk_paragraphs_def add_paragraph_def add_run_def text_acc0_def
      para_of_def plain_run_def run_style_def Let_def dict_get_def)

lemma set_iter_ok_rt_slots: "set_iter_ok rt_slots"
  by (simp add: set_iter_ok_def rt_slots_def slot_order_def)

text \<open>
  Claim C5, as stated, fails twice. A text box whose only paragraph is centred and has
  no run gets \<open>textAlign\<close> \<open>center\<close>, not \<open>left\<close>: the alignment is taken over the
  paragraphs, not the runs. And two runs of sizes 12 and 18 get the whole-box size 18
  when the set of sizes iterates as CPython lays it out (18 in slot 2, 12 in slot 4):
  \<open>max\<close> keeps the first maximal element of the set, not of the list.
\<close>

theorem whole_box_defaults_counterexample:
  "map_option (\<lambda>d. dict_get d ''textAlign'')
     (convert_to_fabric_text rt0 [para_of [] ''center'' []]) = Some (Some (PStr ''center'')) \<and>
   map_option (\<lambda>d. dict_get d ''fontSize'')
     (convert_to_fabric_text rt_slots
        [para_of ''ab'' ''left'' [plain_run ''a'' 12, plain_run ''b'' 18]]) = Some (Some (PNum 18))"
  by (simp add: convert_to_fabric_text_def walk_paragraphs_def add_paragraph_def add_run_def
      text_acc0_def para_of_def plain_run_def Let_def set_default_def most_common_def rt0_def
      rt_slots_def slot_order_def dict_get_def)

text \<open>
  Claim C5, amended. Whatever order the sets iterate in, the conversion returns a text
  box whose \<open>fontSize\<close>, \<open>fontFamily\<close> and \<open>fill\<close> are each a most frequent value
  among the runs with non-empty text (the defaults 12, Arial, \<open>#000000\<close> when there is no
  such run), and whose \<open>textAlign\<close> is a most frequent alignment among all paragraphs
  (\<open>left\<close> when there is no paragraph). Three runs of sizes 12, 12, 18 give the whole-box
  size 12, while the style at the third run's offset records 18.
\<close>

theorem whole_box_defaults:
  assumes ok: "set_iter_ok rt"
  shows "(\<exists>d. convert_to_fabric_text rt ps = Some d \<and>
            mode_or_default (PNum 12) (map (f_size \<circ> r_font) (nonempty_runs ps)) (dict_get d ''fontSize'') \<and>
            mode_or_default (PStr ''Arial'') (map (f_name \<circ> r_font) (nonempty_runs ps)) (dict_get d ''fontFamily'') \<and>
            mode_or_default (PStr ''#000000'') (map (f_color \<circ> r_font) (nonempty_runs ps)) (dict_get d ''fill'') \<and>
            mode_or_default (PStr ''left'') (map (PStr \<circ> p_align) ps) (dict_get d ''textAlign'')) \<and>
         (\<exists>d st style. convert_to_fabric_text rt three_runs = Some d \<and>
            dict_get d ''fontSize'' = Some (PNum 12) \<and>
            dict_get d ''styles'' = Some (PIdxDict st) \<and>
            dict_get st 2 = Some (PDict style) \<and> dict_get style ''fontSize'' = Some (PNum 18))"
proof
  show "\<exists>d. convert_to_fabric_text rt ps = Some d \<and>
            mode_or_default (PNum 12) (map (f_size \<circ> r_font) (nonempty_runs ps)) (dict_get d ''fontSize'') \<and>
            mode_or_default (PStr ''Arial'') (map (f_name \<circ> r_font) (nonempty_runs ps)) (dict_get d ''fontFamily'') \<and>
            mode_or_default (PStr ''#000000'') (map (f_color \<circ> r_font) (nonempty_runs ps)) (dict_get d ''fill'') \<and>
            mode_or_default (PStr ''left'') (map (PStr \<circ> p_align) ps) (dict_get d ''textAlign'')"
    using text_defaults_general[OF ok, of ps] by blast
next
  from text_defaults_general[OF ok, of three_runs] obtain d where
    d: "convert_to_fabric_text rt three_runs = Some d"
       "mode_or_default (PNum 12) [PNum 12, PNum 12, PNum 18] (dict_get d ''fontSize'')"
       "dict_get d ''styles'' = Some (PIdxDict (a_styles (walk_paragraphs three_runs)))"
    unfolding three_runs_sizes by blast
  from d(2) have "dict_get d ''fontSize'' = Some (PNum 12)"
    by (auto simp: mode_or_default_def)
  then show "\<exists>d st style. convert_to_fabric_text rt three_runs = Some d \<and>
            dict_get d ''fontSize'' = Some (PNum 12) \<and>
            dict_get d ''styles'' = Some (PIdxDict st) \<and>
            dict_get st 2 = Some (PDict style) \<and> dict_get style ''fontSize'' = Some (PNum 18)"
    using d(1,3) three_runs_styles by blast
qed

theorem whole_box_defaults_witness:
  "set_iter_ok rt_slots \<and>
   (\<exists>d. convert_to_fabric_text rt_slots three_runs = Some d \<and>
        mode_or_default (PNum 12) (map (f_size \<circ> r_font) (nonempty_runs three_runs)) (dict_get d ''fontSize'') \<and>
        mode_or_default (PStr ''left'') (map (PStr \<circ> p_align) three_runs) (dict_get d ''textAlign'')) \<and>
   (\<exists>d. convert_to_fabric_text rt_slots three_runs = Some d \<and> dict_get d ''fontSize'' = Some (PNum 12))"
  using whole_box_defaults[OF set_iter_ok_rt_slots, of three_runs] set_iter_ok_rt_slots by blast

lemma add_run_text:
  "a_text (foldl (add_run al) acc rs) = a_text acc @ concat (map r_text rs)"
  by (induction rs arbitrary: acc) (simp_all add: add_run_def Let_def)

lemma add_paragraph_text:
  "a_text (foldl (add_paragraph lp) acc ps) =
     a_text acc @ concat (map (\<lambda>p. runs_text p @ (if p \<noteq> lp then [CHR 0x0A] else [])) ps)"
  by (induction ps arbitrary: acc) (simp_all add: add_paragraph_def Let_def add_run_text runs_text_def)

text \<open>
  The text the loop builds: after each paragraph that differs, as a value, from the last
  one, a newline.
\<close>

lemma extracted_text:
  "a_text (walk_paragraphs ps) =
     concat (map (\<lambda>p. runs_text p @ (if p \<noteq> last ps then [CHR 0x0A] else [])) ps)"
  by (simp add: walk_paragraphs_def add_paragraph_text text_acc0_def)

lemma concat_before_last:
  assumes "\<forall>p \<in> set ps. p \<noteq> lp"
  shows "concat (map (\<lambda>p. runs_text p @ (if p \<noteq> lp then [CHR 0x0A] else [])) ps) @ runs_text lp
           = join_lines (map runs_text (ps @ [lp]))"
  using assms
proof (induction ps)
  case Nil
  then show ?case by simp
next
  case (Cons p ps)
  then show ?case by (cases "ps @ [lp]") auto
qed

text \<open>
  Where no paragraph before the last one equals it, the text is what the claim says: the
  paragraphs' run texts joined by single newlines.
\<close>

lemma text_is_joined:
  assumes "ps \<noteq> []" and "\<forall>p \<in> set (butlast ps). p \<noteq> last ps"
  shows "a_text (walk_paragraphs ps) = join_lines (map runs_text ps)"
proof -
  have ps: "ps = butlast ps @ [last ps]" using assms(1) by simp
  have "a_text (walk_paragraphs ps) =
          concat (map (\<lambda>p. runs_text p @ (if p \<noteq> last ps then [CHR 0x0A] else []))
                    (butlast ps @ [last ps]))"
    using extracted_text[of ps] ps by simp
  also have "\<dots> = concat (map (\<lambda>p. runs_text p @ (if p \<noteq> last ps then [CHR 0x0A] else []))
                          (butlast ps)) @ runs_text (last ps)"
    by simp
  also have "\<dots> = join_lines (map runs_text (butlast ps @ [last ps]))"
    using concat_before_last[OF assms(2)] by simp
  finally show ?thesis using ps by simp
qed

text \<open>
  Claim C8 asks for one newline between every two consecutive paragraphs, and the source
  says so (\<open># Add newline between paragraphs\<close>). The test
  \<open>paragraph != text_props['paragraphs'][-1]\<close> compares dictionaries by value, so a
  paragraph equal to the last one gets no newline: two paragraphs that both read \<open>a\<close>
  come out as \<open>aa\<close>, with the second run's style at offset 1.
\<close>

theorem newline_missing_between_equal_paragraphs:
  "map_option (\<lambda>d. (dict_get d ''text'', map fst (case dict_get d ''styles'' of Some (PIdxDict st) \<Rightarrow> st | _ \<Rightarrow> [])))
     (convert_to_fabric_text rt0
        [para_of ''a'' ''left'' [plain_run ''a'' 12], para_of ''a'' ''left'' [plain_run ''a'' 12]])
     = Some (Some (PStr ''aa''), [0, 1])"
  by (simp add: convert_to_fabric_text_def walk_paragraphs_def add_paragraph_def add_run_def
      text_acc0_def para_of_def plain_run_def Let_def set_default_def most_common_def rt0_def
      dict_get_def)

subsection \<open>Colour resolution\<close>

text \<open>
  Claim C4, as stated, fails on a system colour that declares no last-rendered value:
  the resolution does not go on to the scheme reference or to a default but answers with
  the colour's \<open>val\<close> (\<open>sys_clr.get("lastClr", sys_clr.get("val"))\<close>). And where no
  colour element is found the answer is \<open>None\<close>: the function takes no default.
\<close>

theorem color_resolution_counterexample:
  "extract_color_from_element (Some default_theme_colors) sys_only_elem = Some ''#windowText'' \<and>
   extract_color_from_element (Some default_theme_colors) empty_elem = None"
  by (simp add: extract_color_from_element_def sys_only_elem_def empty_elem_def xml_find_def
      xml_findall_def xml_get_def py_str_def)

text \<open>
  Claim C4, amended. The resolution stops at the first colour element it finds, in the
  order: a direct sRGB element, answered with \<open>#\<close> and its \<open>val\<close>; a system colour,
  answered with \<open>#\<close> and its last-rendered value, or its \<open>val\<close> where it declares
  none; a scheme reference, looked up in the theme table under its upper-cased \<open>val\<close>;
  and \<open>None\<close> where there is none of the three.
\<close>

theorem color_resolution_order:
  "(\<forall>srgb. xml_find ''a:srgbClr'' e = Some srgb \<longrightarrow>
       extract_color_from_element th e = Some (''#'' @ py_str (xml_get srgb ''val''))) \<and>
   (xml_find ''a:srgbClr'' e = None \<longrightarrow>
     (\<forall>sys. xml_find ''a:sysClr'' e = Some sys \<longrightarrow>
        extract_color_from_element th e =
          Some (''#'' @ py_str (case xml_get sys ''lastClr'' of Some l \<Rightarrow> Some l
                                 | None \<Rightarrow> xml_get sys ''val'')))) \<and>
   (xml_find ''a:srgbClr'' e = None \<and> xml_find ''a:sysClr'' e = None \<longrightarrow>
     (\<forall>sc val tc. xml_find ''a:schemeClr'' e = Some sc \<and> xml_get sc ''val'' = Some val \<and>
                  th = Some tc \<longrightarrow>
        extract_color_from_element th e = map_of tc (upper val))) \<and>
   (xml_find ''a:srgbClr'' e = None \<and> xml_find ''a:sysClr'' e = None \<and>
    xml_find ''a:schemeClr'' e = None \<longrightarrow> extract_color_from_element th e = None)"
  by (auto simp: extract_color_from_element_def)

lemma find_examples:
  "xml_find ''a:srgbClr'' srgb_elem = Some (Elem ''a:srgbClr'' [(''val'', ''4472C4'')] [])"
  "xml_find ''a:srgbClr'' sys_elem = None"
  "xml_find ''a:sysClr'' sys_elem =
     Some (Elem ''a:sysClr'' [(''val'', ''windowText''), (''lastClr'', ''000000'')] [])"
  "xml_find ''a:srgbClr'' scheme_elem = None"
  "xml_find ''a:sysClr'' scheme_elem = None"
  "xml_find ''a:schemeClr'' scheme_elem = Some (Elem ''a:schemeClr'' [(''val'', ''accent_1'')] [])"
  "xml_find ''a:srgbClr'' empty_elem = None"
  "xml_find ''a:sysClr'' empty_elem = None"
  "xml_find ''a:schemeClr'' empty_elem = None"
  by (simp_all add: xml_find_def xml_findall_def srgb_elem_def sys_elem_def scheme_elem_def
      empty_elem_def)

theorem color_resolution_order_witness:
  "extract_color_from_element (Some default_theme_colors) srgb_elem = Some ''#4472C4'' \<and>
   extract_color_from_element (Some default_theme_colors) sys_elem = Some ''#000000'' \<and>
   extract_color_from_element (Some default_theme_colors) scheme_elem = Some ''#4472C4'' \<and>
   extract_color_from_element (Some default_theme_colors) empty_elem = None"
proof -
  have 1: "extract_color_from_element (Some default_theme_colors) srgb_elem = Some ''#4472C4''"
    using color_resolution_order[of srgb_elem "Some default_theme_colors"] find_examples(1)
    by (simp add: xml_get_def py_str_def)
  have 2: "extract_color_from_element (Some default_theme_colors) sys_elem = Some ''#000000''"
    using color_resolution_order[of sys_elem "Some default_theme_colors"] find_examples(2,3)
    by (simp add: xml_get_def py_str_def)
  have 3: "extract_color_from_element (Some default_theme_colors) scheme_elem = Some ''#4472C4''"
    using color_resolution_order[of scheme_elem "Some default_theme_colors"] find_examples(4,5,6)
    by (simp add: xml_get_def upper_def upper_char_def default_theme_colors_def)
  have 4: "extract_color_from_element (Some default_theme_colors) empty_elem = None"
    using color_resolution_order[of empty_elem "Some default_theme_colors"] find_examples(7,8,9)
    by simp
  show ?thesis using 1 2 3 4 by simp
qed

subsection \<open>Effects and gradients\<close>

lemma foldl_shadow:
  "dict_get (foldl (\<lambda>fp effect. AList.update ''shadow'' (effect_shadow rt effect) fp) fp0 es) ''shadow''
    = (if es = [] then dict_get fp0 ''shadow'' else Some (effect_shadow rt (last es)))"
  by (induction es arbitrary: fp0) (simp_all add: dict_get_update)

lemma no_shadow_before:
  assumes "\<forall>g. sp_gradient props = Some g \<longrightarrow> g_type g \<noteq> ''linear''"
  shows "\<exists>fp2. convert_to_fabric rt props =
           foldl (\<lambda>fp effect. AList.update ''shadow'' (effect_shadow rt effect) fp) fp2 (sp_effects props)
         \<and> dict_get fp2 ''shadow'' = None"
  using assms
  by (auto simp: convert_to_fabric_def gradient_fill_def Let_def geometry_props_def dict_get_update dict_get_def
      split: option.splits sum.splits list.splits prod.splits if_splits)

lemma shadow_effect_shape:
  "shadow_effect rt el = None \<or> shadow_effect rt el = Some [] \<or>
   (\<exists>c opac b x y. shadow_effect rt el = Some [Shadow c opac b x y])"
  by (auto simp: shadow_effect_def split: option.splits Option.bind_splits)

lemma glow_effect_shape:
  "glow_effect rt el = None \<or> glow_effect rt el = Some [] \<or>
   (\<exists>c opac r. glow_effect rt el = Some [Glow c opac r])"
  by (auto simp: glow_effect_def split: option.splits Option.bind_splits)

lemma soft_edge_effect_shape:
  "soft_edge_effect rt el = None \<or> soft_edge_effect rt el = Some [] \<or>
   (\<exists>r. soft_edge_effect rt el = Some [SoftEdge r])"
  by (auto simp: soft_edge_effect_def split: option.splits Option.bind_splits)

lemma extract_effects_shape:
  "\<exists>s g e. extract_effects rt el = s @ g @ e \<and>
      (s = [] \<or> (\<exists>c opac b x y. s = [Shadow c opac b x y])) \<and>
      (g = [] \<or> (\<exists>c opac r. g = [Glow c opac r])) \<and>
      (e = [] \<or> (\<exists>r. e = [SoftEdge r]))"
proof (cases "shadow_effect rt el")
  case None
  then show ?thesis by (simp add: extract_effects_def)
next
  case (Some s)
  note s = this
  show ?thesis
  proof (cases "glow_effect rt el")
    case None
    then show ?thesis using s by (simp add: extract_effects_def)
  next
    case (Some g)
    note g = this
    show ?thesis
    proof (cases "soft_edge_effect rt el")
      case None
      then show ?thesis using s g by (simp add: extract_effects_def)
    next
      case (Some e)
      have "extract_effects rt el = s @ g @ e" using s g Some by (simp add: extract_effects_def)
      moreover have "s = [] \<or> (\<exists>c opac b x y. s = [Shadow c opac b x y])"
        using shadow_effect_shape[of rt el] s by auto
      moreover have "g = [] \<or> (\<exists>c opac r. g = [Glow c opac r])"
        using glow_effect_shape[of rt el] g by auto
      moreover have "e = [] \<or> (\<exists>r. e = [SoftEdge r])"
        using soft_edge_effect_shape[of rt el] Some by auto
      ultimately show ?thesis by blast
    qed
  qed
qed

lemma shadow_and_glow_effects:
  "extract_effects rt0 shadow_and_glow = [Shadow ''#FF0000'' 1 1 2 2, Glow ''#00FF00'' 1 3]"
  by (simp add: extract_effects_def shadow_effect_def glow_effect_def soft_edge_effect_def
      shadow_and_glow_def xml_find_def xml_findall_def int_attr_def xml_get_or_def xml_get_def
      py_int_def py_int_base_def strip_def is_space_def unsigned_val_def digit_val_def
      get_effect_color_def py_str_def rt0_def)

lemma shadow_and_glow_props:
  "extract_shape_properties rt0 (Some shadow_and_glow_shape) =
     Some \<lparr> sp_effects = [Shadow ''#FF0000'' 1 1 2 2, Glow ''#00FF00'' 1 3],
            sp_gradient = None, sp_custom_geometry = None \<rparr>"
proof -
  have f: "xml_find ''a:spPr'' shadow_and_glow_shape = Some (Elem ''a:spPr'' [] [shadow_and_glow])"
    by (simp add: shadow_and_glow_shape_def shadow_and_glow_def xml_find_def xml_findall_def)
  have g: "xml_find ''a:effectLst'' (Elem ''a:spPr'' [] [shadow_and_glow]) = Some shadow_and_glow"
          "xml_find ''a:gradFill'' (Elem ''a:spPr'' [] [shadow_and_glow]) = None"
          "xml_find ''a:custGeom'' (Elem ''a:spPr'' [] [shadow_and_glow]) = None"
    by (simp_all add: shadow_and_glow_def xml_find_def xml_findall_def)
  show ?thesis by (simp add: extract_shape_properties_def f g shadow_and_glow_effects)
qed

text \<open>
  Claim C2, as stated, fails on a shape that carries a shadow (blur 1, offset 2, 2, red)
  and a glow (radius 3, green): the shadow its properties are converted to has the
  glow's parameters, blur 6 at the centre in green. Each effect in turn is assigned to
  the same entry, so the last one extracted stays.
\<close>

theorem effect_priority_counterexample:
  "map_option (\<lambda>props. dict_get (convert_to_fabric rt0 props) ''shadow'')
     (extract_shape_properties rt0 (Some shadow_and_glow_shape))
   = Some (Some (PDict [(''color'', PStr ''#00FF00''), (''blur'', PNum 6), (''offsetX'', PNum 0),
                        (''offsetY'', PNum 0), (''opacity'', PNum 1)]))"
  unfolding shadow_and_glow_props
  by (simp add: convert_to_fabric_def dict_get_def rt0_def)

lemma linear_gradient_props:
  "extract_shape_properties rt0 (Some linear_gradient_shape) =
     Some \<lparr> sp_effects = [],
            sp_gradient = Some \<lparr> g_type = ''linear'', g_angle = 90,
                                 g_stops = [(0, ''#FF0000''), (1, ''#0000FF'')] \<rparr>,
            sp_custom_geometry = None \<rparr>"
  by (simp add: extract_shape_properties_def linear_gradient_shape_def xml_find_def xml_findall_def
      extract_gradient_def int_attr_def xml_get_or_def xml_get_def py_int_def py_int_base_def
      strip_def is_space_def unsigned_val_def digit_val_def py_str_def rt0_def)

text \<open>
  Whatever its angle and stops, a linear gradient leaves the conversion with nothing:
  \<open>Math\<close> is not a name of the module (it imports \<open>math\<close>), the \<open>NameError\<close> is
  caught, and \<open>convert_to_fabric\<close> answers \<open>{}\<close>.
\<close>

lemma linear_gradient_lost:
  assumes "sp_gradient props = Some grad" and "g_type grad = ''linear''"
  shows "convert_to_fabric rt props = []"
  using assms
  by (simp add: convert_to_fabric_def gradient_fill_def load_global_def
      advanced_shape_handler_globals_def Let_def)

text \<open>
  Claim C3 asks for the end points \<open>0.5 \<mp> 0.5 cos \<theta>\<close>, \<open>0.5 \<mp> 0.5 sin \<theta>\<close> in the
  fill descriptor of a linear gradient, and so does the source (\<open># Convert angle to
  coordinates\<close>). A shape with a linear gradient of 90 degrees between two stops is
  extracted as such, and converted to the empty dictionary: no fill descriptor at all.
\<close>

theorem linear_gradient_has_no_fill:
  "extract_shape_properties rt0 (Some linear_gradient_shape) =
     Some \<lparr> sp_effects = [],
            sp_gradient = Some \<lparr> g_type = ''linear'', g_angle = 90,
                                 g_stops = [(0, ''#FF0000''), (1, ''#0000FF'')] \<rparr>,
            sp_custom_geometry = None \<rparr> \<and>
   map_option (convert_to_fabric rt0) (extract_shape_properties rt0 (Some linear_gradient_shape))
     = Some []"
  unfolding linear_gradient_props
  by (simp add: convert_to_fabric_def gradient_fill_def load_global_def
      advanced_shape_handler_globals_def Let_def)

subsection \<open>Colours on the way back\<close>

lemma nibble_cases:
  assumes "d < (16::nat)"
  shows "d \<in> {0,1,2,3,4,5,6,7,8,9,10,11,12,13,14,15}"
  using assms by (simp; arith)

lemma hex_digit_facts:
  assumes "d < 16"
  shows "digit_val 16 (hex_digit d) = Some d"
    and "\<not> is_space (hex_digit d)"
    and "hex_digit d \<noteq> CHR ''#''" and "hex_digit d \<noteq> CHR ''-''" and "hex_digit d \<noteq> CHR ''+''"
    and "hex_digit d \<noteq> CHR ''x''" and "hex_digit d \<noteq> CHR ''X''" and "hex_digit d \<noteq> CHR ''_''"
  using nibble_cases[OF assms]
  by (auto simp: hex_digit_def digit_val_def is_space_def)

lemma fmt_02x_byte:
  assumes "r < 256"
  shows "fmt_02x r = [hex_digit (r div 16), hex_digit (r mod 16)]"
proof (cases "r < 16")
  case True
  then show ?thesis by (simp add: fmt_02x_def hex_str.simps[of r] hex_digit_def)
next
  case False
  have "r div 16 < 16" using assms by simp
  then show ?thesis using False
    by (simp add: fmt_02x_def hex_str.simps[of r] hex_str.simps[of "r div 16"])
qed

lemma int16_pair:
  assumes "a < 16" and "b < 16"
  shows "py_int_base 16 [hex_digit a, hex_digit b] = Some (int (a * 16 + b))"
  using hex_digit_facts[OF assms(1)] hex_digit_facts[OF assms(2)]
  by (simp add: py_int_base_def strip_def unsigned_val_def)

lemma parse_hex:
  assumes "r < 256" "g < 256" "b < 256"
  shows "parse_color (PStr (rgb_hex (r, g, b))) = Some [int r, int g, int b]"
proof -
  have n: "r div 16 < 16" "r mod 16 < 16" "g div 16 < 16" "g mod 16 < 16" "b div 16 < 16" "b mod 16 < 16"
    using assms by simp_all
  have e: "r div 16 * 16 + r mod 16 = r" "g div 16 * 16 + g mod 16 = g" "b div 16 * 16 + b mod 16 = b"
    by simp_all
  show ?thesis
    using hex_digit_facts(3)[OF n(1)] e
    by (simp add: parse_color_def rgb_hex_def fmt_02x_byte assms starts_with_def int16_pair n)
qed


lemma parse_other:
  assumes "\<not> starts_with ''#'' s" and "\<not> starts_with ''rgb'' s"
  shows "parse_color (PStr s) = None"
  using assms by (simp add: parse_color_def)

lemma set_stroke_keeps_fill:
  "k_fill_solid (outcome (set_stroke rt obj shape)) = k_fill_solid shape \<and>
   k_fill_rgb (outcome (set_stroke rt obj shape)) = k_fill_rgb shape"
  by (auto simp: set_stroke_def and_then_def outcome_def split: option.splits sum.splits)

lemma fill_unchanged:
  assumes "dict_get obj ''fill'' = Some f" and "parse_color f = None"
  shows "k_fill_solid (set_shape_properties rt shape obj) = k_fill_solid shape \<and>
         k_fill_rgb (set_shape_properties rt shape obj) = k_fill_rgb shape"
  using assms set_stroke_keeps_fill[of rt obj shape]
  by (simp add: set_shape_properties_def set_fill_def and_then_def)

lemma sentinels: "parse_color (PStr ''transparent'') = None" "parse_color (PStr ''gradient'') = None"
  by (simp_all add: parse_color_def starts_with_def)

text \<open>
  Claim C10. The hexadecimal rendering \<open>#rrggbb\<close> the forward converter gives a byte
  triple is parsed back to that triple. A string that starts with neither \<open>#\<close> nor
  \<open>rgb\<close>, such as the sentinels \<open>transparent\<close> and \<open>gradient\<close>, is parsed to
  \<open>None\<close>, and the builder then leaves the fill of the shape as it was.
\<close>

theorem hex_color_round_trip:
  "(r < 256 \<and> g < 256 \<and> b < 256 \<longrightarrow>
      parse_color (PStr (rgb_hex (r, g, b))) = Some [int r, int g, int b]) \<and>
   (\<not> starts_with ''#'' s \<and> \<not> starts_with ''rgb'' s \<longrightarrow>
      parse_color (PStr s) = None \<and>
      (dict_get obj ''fill'' = Some (PStr s) \<longrightarrow>
         k_fill_solid (set_shape_properties rt shape obj) = k_fill_solid shape \<and>
         k_fill_rgb (set_shape_properties rt shape obj) = k_fill_rgb shape)) \<and>
   parse_color (PStr ''transparent'') = None \<and> parse_color (PStr ''gradient'') = None"
  using parse_hex[of r g b] parse_other[of s] fill_unchanged[of obj "PStr s" rt shape] sentinels
  by blast

theorem hex_color_round_trip_witness:
  "parse_color (PStr (rgb_hex (255, 0, 10))) = Some [255, 0, 10] \<and>
   parse_color (PStr ''transparent'') = None \<and>
   k_fill_solid (set_shape_properties rt0 (new_shape (AutoShape ''RECTANGLE'') (0, 0, 1, 1))
                   [(''fill'', PStr ''transparent''), (''stroke'', PStr ''#000000'')]) = False \<and>
   k_fill_rgb (set_shape_properties rt0 (new_shape (AutoShape ''RECTANGLE'') (0, 0, 1, 1))
                 [(''fill'', PStr ''transparent''), (''stroke'', PStr ''#000000'')]) = None"
  using hex_color_round_trip[of 255 0 10 "''transparent''"
          "[(''fill'', PStr ''transparent''), (''stroke'', PStr ''#000000'')]" rt0
          "new_shape (AutoShape ''RECTANGLE'') (0, 0, 1, 1)"]
  by (simp add: starts_with_def dict_get_def new_shape_def)

subsection \<open>Shapes\<close>

lemma dict_get_Cons: "dict_get ((k', v) # e) k = (if k = k' then Some v else dict_get e k)"
  by (simp add: dict_get_def)

lemma dict_get_Nil: "dict_get [] k = None"
  by (simp add: dict_get_def)

lemma dict_update_Cons:
  "dict_update d ((k, v) # e) = dict_update (AList.update k v d) e"
  by (simp add: dict_update_def)

lemma dict_update_Nil: "dict_update d [] = d"
  by (simp add: dict_update_def)

lemma dict_update_get:
  assumes "distinct (map fst e)"
  shows "dict_get (dict_update d e) k = (case map_of e k of Some v \<Rightarrow> Some v | None \<Rightarrow> dict_get d k)"
  using assms
proof (induction e arbitrary: d)
  case Nil
  then show ?case by (simp add: dict_update_Nil)
next
  case (Cons kv e)
  obtain k' v' where kv: "kv = (k', v')" by (cases kv)
  have "k' \<notin> fst ` set e" using Cons.prems kv by auto
  then have n: "map_of e k' = None" by (simp add: map_of_eq_None_iff)
  show ?case using Cons.IH[of "AList.update k' v' d"] Cons.prems kv n
    by (auto simp: dict_update_Cons dict_get_update split: option.splits)
qed

lemma dict_update_get_other:
  assumes "dict_get e k = None"
  shows "dict_get (dict_update d e) k = dict_get d k"
  using assms
proof (induction e arbitrary: d)
  case Nil
  then show ?case by (simp add: dict_update_Nil)
next
  case (Cons kv e)
  obtain k' v' where kv: "kv = (k', v')" by (cases kv)
  show ?case using Cons.IH[of "AList.update k' v' d"] Cons.prems kv
    by (auto simp: dict_update_Cons dict_get_update dict_get_Cons split: if_splits)
qed

lemma dict_update_nonempty: "d \<noteq> [] \<Longrightarrow> dict_update d e \<noteq> []"
proof (induction e arbitrary: d)
  case Nil
  then show ?case by (simp add: dict_update_Nil)
next
  case (Cons kv e)
  obtain k' v' where kv: "kv = (k', v')" by (cases kv)
  have "AList.update k' v' d \<noteq> []" by (cases d) auto
  then show ?case using Cons.IH kv by (simp add: dict_update_Cons)
qed

lemma update_nonempty: "AList.update k v d \<noteq> []"
  by (cases d) auto

lemma foldl_shadow_other:
  "k \<noteq> ''shadow'' \<Longrightarrow>
   dict_get (foldl (\<lambda>fp effect. AList.update ''shadow'' (effect_shadow rt effect) fp) fp0 es) k
     = dict_get fp0 k"
  by (induction es arbitrary: fp0) (simp_all add: dict_get_update)

lemma convert_to_fabric_keys:
  assumes "k \<noteq> ''fill''" "k \<noteq> ''path''" "k \<noteq> ''clipPath''" "k \<noteq> ''shadow''"
  shows "dict_get (convert_to_fabric rt p) k = None"
  using assms
  by (auto simp: convert_to_fabric_def foldl_shadow_other geometry_props_def dict_get_update Let_def
      dict_get_Cons dict_get_Nil split: option.splits sum.splits list.splits prod.splits)

lemma foldl_shadow_distinct:
  "distinct (map fst fp0) \<Longrightarrow>
   distinct (map fst (foldl (\<lambda>fp effect. AList.update ''shadow'' (effect_shadow rt effect) fp) fp0 es))"
  by (induction es arbitrary: fp0) (simp_all add: distinct_update)

lemma convert_to_fabric_distinct: "distinct (map fst (convert_to_fabric rt p))"
  by (auto simp: convert_to_fabric_def geometry_props_def Let_def distinct_update
      intro!: foldl_shadow_distinct split: option.splits sum.splits list.splits prod.splits)

lemma advanced_of_distinct: "distinct (map fst (advanced_of rt a))"
  by (simp add: advanced_of_def convert_to_fabric_distinct split: option.splits)

lemma advanced_of_keys:
  assumes "k \<noteq> ''fill''" "k \<noteq> ''path''" "k \<noteq> ''clipPath''" "k \<noteq> ''shadow''"
  shows "dict_get (advanced_of rt a) k = None"
  using convert_to_fabric_keys[OF assms]
  by (simp add: advanced_of_def dict_get_Nil split: option.splits)

lemma process_shape_unfold:
  "process_shape rt th (Shape a cs) =
     (case base_of rt a of
        None \<Rightarrow> None
      | Some base \<Rightarrow>
         (case s_shape_type a of
            GROUP \<Rightarrow> process_group base (map (process_shape rt th) cs)
          | PICTURE \<Rightarrow> process_picture rt a base
          | TEXT_BOX \<Rightarrow> process_textbox rt th a base
          | AUTO_SHAPE \<Rightarrow> process_autoshape rt th a base
          | FREEFORM \<Rightarrow> process_freeform rt th a base
          | LINE \<Rightarrow> process_line rt th a base
          | OTHER_SHAPE_TYPE \<Rightarrow> None))"
proof (cases "get_base_properties rt a")
  case None
  then show ?thesis by (simp add: process_shape.simps base_of_def)
next
  case (Some b)
  have "(case extract_shape_properties rt (s_element a) of
           None \<Rightarrow> b
         | Some advanced_props \<Rightarrow> dict_update b (convert_to_fabric rt advanced_props))
        = dict_update b (advanced_of rt a)"
    by (simp add: advanced_of_def dict_update_Nil split: option.splits)
  then show ?thesis using Some
    by (cases "s_shape_type a") (simp_all add: process_shape.simps base_of_def Let_def)
qed

lemma base_absent:
  assumes "s_left a = None \<or> s_top a = None \<or> s_width a = None \<or> s_height a = None"
  shows "base_of rt a = None"
  using assms by (auto simp: base_of_def get_base_properties_def split: option.splits)

lemma base_present:
  assumes "base_of rt a = Some base"
  shows "\<exists>l t w h.
           s_left a = Some l \<and> s_top a = Some t \<and> s_width a = Some w \<and>
           s_height a = Some h \<and>
           base = dict_update
                    [(''left'', PNum (to_scalar rt l)), (''top'', PNum (to_scalar rt t)),
                     (''width'', PNum (to_scalar rt w)), (''height'', PNum (to_scalar rt h)),
                     (''rotation'', PNum (case s_rotation a of Some r \<Rightarrow> r | None \<Rightarrow> 0))]
                    (advanced_of rt a)"
  using assms by (auto simp: base_of_def get_base_properties_def split: option.splits)

lemma base_of_nonempty: "base_of rt a = Some base \<Longrightarrow> base \<noteq> []"
  using base_present[of rt a base] by (auto simp: dict_update_nonempty)

lemma base_of_simple:
  assumes "base_of rt a = Some base"
  shows "dict_get base ''type'' = None"
        "dict_get base ''objects'' = None"
        "dict_get base ''backgroundColor'' = None"
        "dict_get base ''rotation'' = Some (PNum (case s_rotation a of Some r \<Rightarrow> r | None \<Rightarrow> 0))"
        "dict_get base ''shadow'' = dict_get (advanced_of rt a) ''shadow''"
        "dict_get base ''fill'' = dict_get (advanced_of rt a) ''fill''"
proof -
  from base_present[OF assms] obtain l t w h where
    b: "base = dict_update
                 [(''left'', PNum (to_scalar rt l)), (''top'', PNum (to_scalar rt t)),
                  (''width'', PNum (to_scalar rt w)), (''height'', PNum (to_scalar rt h)),
                  (''rotation'', PNum (case s_rotation a of Some r \<Rightarrow> r | None \<Rightarrow> 0))]
                 (advanced_of rt a)"
    by blast
  note get = dict_update_get[OF advanced_of_distinct, of _ rt a]
  note none = advanced_of_keys[unfolded dict_get_def]
  show "dict_get base ''type'' = None" "dict_get base ''objects'' = None"
       "dict_get base ''backgroundColor'' = None"
       "dict_get base ''rotation'' = Some (PNum (case s_rotation a of Some r \<Rightarrow> r | None \<Rightarrow> 0))"
    unfolding b by (simp_all add: get none dict_get_Cons dict_get_Nil)
  show "dict_get base ''shadow'' = dict_get (advanced_of rt a) ''shadow''"
       "dict_get base ''fill'' = dict_get (advanced_of rt a) ''fill''"
    unfolding b dict_get_def by (simp_all add: get[unfolded dict_get_def] split: option.splits)
qed


lemma get_line_properties_keys:
  assumes "k \<noteq> ''stroke''" "k \<noteq> ''strokeWidth''"
  shows "dict_get (get_line_properties rt th a) k = None"
  using assms
  by (auto simp: get_line_properties_def Let_def dict_get_update dict_get_Cons dict_get_Nil
      split: option.splits)

lemma line_defaults_keys:
  assumes "k \<noteq> ''stroke''" "k \<noteq> ''strokeWidth''"
  shows "dict_get (line_defaults lp) k = dict_get lp k"
  using assms
  by (auto simp: line_defaults_def Let_def dict_get_update split: option.splits)

lemma set_default_keeps:
  assumes "set_default rt key xs d = Some d'" and "k \<noteq> key"
  shows "dict_get d' k = dict_get d k"
  using assms by (auto simp: set_default_def dict_get_update split: if_splits option.splits)

lemma fabric_text_type:
  assumes "convert_to_fabric_text rt ps = Some d"
  shows "dict_get d ''type'' = Some (PStr ''textbox'')"
proof -
  from assms obtain d1 d2 d3 where
    1: "set_default rt ''fontSize'' (a_font_sizes (walk_paragraphs ps))
            [(''type'', PStr ''textbox''),
             (''text'', PStr (a_text (walk_paragraphs ps))),
             (''styles'', PIdxDict (a_styles (walk_paragraphs ps))),
             (''fontSize'', PNum 12),
             (''fontFamily'', PStr ''Arial''),
             (''textAlign'', PStr ''left''),
             (''fill'', PStr ''#000000''),
             (''originX'', PStr ''left''),
             (''originY'', PStr ''top'')] = Some d1"
    and 2: "set_default rt ''fontFamily'' (a_font_families (walk_paragraphs ps)) d1 = Some d2"
    and 3: "set_default rt ''fill'' (a_colors (walk_paragraphs ps)) d2 = Some d3"
    and 4: "set_default rt ''textAlign'' (a_alignments (walk_paragraphs ps)) d3 = Some d"
    by (auto simp: convert_to_fabric_text_def Let_def split: option.splits)
  show ?thesis
    using set_default_keeps[OF 1, of "''type''"] set_default_keeps[OF 2, of "''type''"]
      set_default_keeps[OF 3, of "''type''"] set_default_keeps[OF 4, of "''type''"]
    by (simp add: dict_get_Cons)
qed

lemma group_result:
  "process_group base rs =
     (let kept = concat (map (\<lambda>r. case r of None \<Rightarrow> [] | Some d \<Rightarrow> if d \<noteq> [] then [d] else []) rs)
      in if kept = [] then None
         else Some (AList.update ''objects'' (PList (map PDict kept))
                      (AList.update ''type'' (PStr ''group'') base)))"
  by (simp add: process_group_def Let_def)

lemma result_nonempty:
  assumes "process_shape rt th s = Some d"
  shows "d \<noteq> []"
proof -
  obtain a cs where s: "s = Shape a cs" by (cases s)
  from assms obtain base where b: "base_of rt a = Some base"
    unfolding s process_shape_unfold by (auto split: option.splits)
  show ?thesis
    using assms base_of_nonempty[OF b] unfolding s process_shape_unfold b
    by (cases "s_shape_type a")
       (auto simp: process_group_def process_picture_def process_textbox_def process_autoshape_def
          process_freeform_def process_line_def Let_def update_nonempty dict_update_nonempty
          split: option.splits if_splits)
qed


lemma fabric_text_keys:
  assumes "convert_to_fabric_text rt ps = Some d"
  shows "map fst d = [''type'', ''text'', ''styles'', ''fontSize'', ''fontFamily'', ''textAlign'',
                      ''fill'', ''originX'', ''originY'']"
proof -
  have k: "\<And>key xs d0 d'. set_default rt key xs d0 = Some d' \<Longrightarrow> key \<in> set (map fst d0) \<Longrightarrow>
             map fst d' = map fst d0"
    by (force simp: set_default_def update_keys split: if_splits option.splits)
  from assms obtain d1 d2 d3 where
    1: "set_default rt ''fontSize'' (a_font_sizes (walk_paragraphs ps))
            [(''type'', PStr ''textbox''),
             (''text'', PStr (a_text (walk_paragraphs ps))),
             (''styles'', PIdxDict (a_styles (walk_paragraphs ps))),
             (''fontSize'', PNum 12),
             (''fontFamily'', PStr ''Arial''),
             (''textAlign'', PStr ''left''),
             (''fill'', PStr ''#000000''),
             (''originX'', PStr ''left''),
             (''originY'', PStr ''top'')] = Some d1"
    and 2: "set_default rt ''fontFamily'' (a_font_families (walk_paragraphs ps)) d1 = Some d2"
    and 3: "set_default rt ''fill'' (a_colors (walk_paragraphs ps)) d2 = Some d3"
    and 4: "set_default rt ''textAlign'' (a_alignments (walk_paragraphs ps)) d3 = Some d"
    by (auto simp: convert_to_fabric_text_def Let_def split: option.splits)
  have k1: "map fst d1 = [''type'', ''text'', ''styles'', ''fontSize'', ''fontFamily'', ''textAlign'',
                      ''fill'', ''originX'', ''originY'']" using k[OF 1] by simp
  have k2: "map fst d2 = map fst d1" using k[OF 2] k1 by simp
  have k3: "map fst d3 = map fst d2" using k[OF 3] k1 k2 by simp
  have k4: "map fst d = map fst d3" using k[OF 4] k1 k2 k3 by simp
  show ?thesis using k1 k2 k3 k4 by simp
qed

lemma textbox_result:
  assumes "process_textbox rt th a base = Some d"
  shows "dict_get d ''type'' = Some (PStr ''textbox'') \<and>
         dict_get d ''backgroundColor'' = Some (PStr (get_shape_color th (s_fill a))) \<and>
         dict_get d ''shadow'' = dict_get base ''shadow''"
proof -
  from assms obtain ft where ft: "convert_to_fabric_text rt (s_text_props a) = Some ft"
    and d: "d = AList.update ''backgroundColor'' (PStr (get_shape_color th (s_fill a))) (dict_update base ft)"
    by (auto simp: process_textbox_def split: option.splits if_splits)
  have dist: "distinct (map fst ft)" using fabric_text_keys[OF ft] by simp
  have "map_of ft ''type'' = Some (PStr ''textbox'')"
    using fabric_text_type[OF ft] by (simp add: dict_get_def)
  moreover have "''shadow'' \<notin> set (map fst ft)"
    unfolding fabric_text_keys[OF ft] by simp
  then have "map_of ft ''shadow'' = None" by (simp add: map_of_eq_None_iff)
  ultimately show ?thesis unfolding d by (simp add: dict_get_update dict_update_get[OF dist])
qed

lemma picture_result:
  assumes "process_picture rt a base = Some d"
  shows "dict_get d ''type'' = Some (PStr ''image'') \<and> dict_get d ''fill'' = dict_get base ''fill'' \<and>
         dict_get d ''shadow'' = dict_get base ''shadow''"
  using assms
  by (auto simp: process_picture_def Let_def dict_update_get split: option.splits if_splits)

lemma autoshape_result:
  assumes "process_autoshape rt th a base = Some d"
  shows "dict_get d ''type'' =
           Some (PStr (if s_auto_shape_type a = AutoShapeType ''ISOSCELES_TRIANGLE''
                       then ''triangle'' else ''rect'')) \<and>
         (get_shape_color th (s_fill a) \<noteq> [] \<longrightarrow>
            dict_get d ''fill'' = Some (PStr (get_shape_color th (s_fill a)))) \<and>
         dict_get d ''shadow'' = dict_get base ''shadow''"
  using assms
  by (auto simp: process_autoshape_def Let_def dict_get_update dict_update_get_other
      line_defaults_keys get_line_properties_keys split: option.splits if_splits)

lemma autoshape_converted:
  assumes "dict_get base ''rotation'' = Some (PNum r)"
      and "s_auto_shape_type a \<noteq> AutoShapeTypeRaises"
  shows "\<exists>d. process_autoshape rt th a base = Some d"
  using assms
  by (auto simp: process_autoshape_def Let_def dict_get_update dict_update_get_other
      line_defaults_keys get_line_properties_keys)

lemma freeform_result:
  assumes "process_freeform rt th a base = Some d"
  shows "dict_get d ''type'' = Some (PStr ''path'') \<and>
         (get_shape_color th (s_fill a) \<noteq> [] \<longrightarrow>
            dict_get d ''fill'' = Some (PStr (get_shape_color th (s_fill a)))) \<and>
         dict_get d ''shadow'' = dict_get base ''shadow''"
  using assms
  by (auto simp: process_freeform_def Let_def dict_get_update dict_update_get_other
      get_line_properties_keys split: option.splits if_splits)

lemma line_result:
  assumes "process_line rt th a base = Some d"
  shows "dict_get d ''type'' = Some (PStr ''path'') \<and>
         dict_get d ''fill'' = Some (PStr ''transparent'') \<and>
         dict_get d ''shadow'' = dict_get base ''shadow''"
  using assms
  by (auto simp: process_line_def Let_def dict_get_update dict_update_get_other
      line_defaults_keys get_line_properties_keys split: option.splits)

lemma unfilled_transparent:
  assumes "unfilled sf"
  shows "get_shape_color th sf = ''transparent''"
  using assms by (auto simp: unfilled_def get_shape_color_def split: fill_attr.splits)

lemma rect_color: "get_shape_color th (solid_fill (255, 0, 0)) = ''#ff0000''"
  "get_shape_color th (solid_fill (0, 0, 0)) = ''#000000''"
  by (simp_all add: get_shape_color_def solid_fill_def rgb_hex_def fmt_02x_def hex_str.simps
      hex_digit_def)

lemma rect_no_advanced: "extract_shape_properties rt (s_element rect_attrs) = None"
  by (simp add: extract_shape_properties_def rect_attrs_def xml_find_def xml_findall_def)

lemma rect_base:
  "get_base_properties rt0 rect_attrs =
     Some [(''left'', PNum 100), (''top'', PNum 100), (''width'', PNum 200), (''height'', PNum 50),
           (''rotation'', PNum 0)]"
  by (simp add: rect_attrs_def get_base_properties_def to_scalar_def rt0_def)

lemma rect_forward: "process_shape rt0 th (Shape rect_attrs []) = Some rect_object"
  by (simp add: process_shape.simps rect_no_advanced rect_base Let_def)
     (simp add: rect_attrs_def process_autoshape_def rect_color
        get_line_properties_def line_defaults_def dict_update_def dict_get_def Let_def
        to_scalar_def rt0_def rect_object_def)

lemma rect_objects:
  "slide_objects rt0 th [] [Shape rect_attrs []] = Inr [PDict rect_object]"
  unfolding slide_objects.simps rect_forward
  by (simp add: add_shape_data_def rect_object_def dict_get_def)

lemma scalar_rt0: "to_scalar rt0 x = real_of_int x / 12700"
  by (simp add: to_scalar_def rt0_def)

lemma rect_presentation_forward: "pptx_to_fabric rt0 one_rect_presentation = Inr one_rect_fabric"
  by (simp add: pptx_to_fabric_def one_rect_presentation_def slide_to_fabric_def rect_forward
      add_shape_data_def rect_object_def dict_get_def
      one_rect_fabric_def get_slide_background_def scalar_rt0)

text \<open>
  No object of type \<open>rect\<close> ever becomes a shape: \<open>MSO_SHAPE\<close> is not a name of
  the module, the \<open>NameError\<close> is caught and printed, and the slide stays as it was.
\<close>

lemma rect_never_created:
  assumes "dict_get obj ''type'' = Some (PStr ''rect'')"
  shows "create_shape_from_fabric rt shapes (PDict obj) = shapes"
  using assms
  by (simp add: create_shape_from_fabric_def load_global_def pptx_fabric_converter_globals_def)

lemma Pt_rt0: "Pt rt0 v = py_trunc (v * 12700)"
  by (simp add: Pt_def rt0_def)

lemma rect_presentation_backward: "fabric_to_pptx rt0 one_rect_fabric =
   Inr \<lparr> pp_slide_width = 9144000, pp_slide_height = 6858000,
         pp_slides = [\<lparr> ps_background_solid = False, ps_background_rgb = None, ps_shapes = [] \<rparr>] \<rparr>"
  by (simp add: fabric_to_pptx_def one_rect_fabric_def dict_get_def slide_from_fabric_def
      set_slide_background_def rect_never_created rect_object_def Pt_rt0 py_trunc_def)

text \<open>A text box, by contrast, is rebuilt, its lengths multiplied by 12700.\<close>

lemma from_scalar_rt0: "from_scalar rt0 s = py_trunc (s / 72 * 914400)"
  by (simp add: from_scalar_def Inches_def rt0_def)

lemma textbox_rebuilt:
  "create_shape_from_fabric rt0 [] (PDict textbox_object) =
     [(new_shape Textbox (1270000, 1270000, 2540000, 635000))
        \<lparr> k_text := Some (PStr ''abc''), k_font_size := Some 152400,
          k_font_name := Some (PStr ''Arial''), k_font_rgb := Some (255, 0, 0),
          k_alignment := Some ''CENTER'' \<rparr>]"
  by (simp add: create_shape_from_fabric_def textbox_object_def dict_get_def geometry_args_def
      scalar_arg_def from_scalar_rt0 py_trunc_def set_rotation_def set_text_properties_def
      and_then_def outcome_def Pt_rt0 parse_color_def starts_with_def py_int_base_def strip_def
      is_space_def unsigned_val_def digit_val_def RGBColor_def get_alignment_def lower_def
      lower_char_def new_shape_def)

text \<open>
  Claim C1 asks that the scene object of a solid-filled rectangle, converted back, adds
  one auto-shape rectangle of the same position, size and colour to the document. The
  forward half holds: the presentation with the red rectangle at (100, 100), 200 by 50,
  gives one slide with one object of type \<open>rect\<close>, the lengths divided by 12700 and the
  fill \<open>#ff0000\<close>. Converted back, that slide has no shape at all.
\<close>

theorem rectangle_not_rebuilt:
  "pptx_to_fabric rt0 one_rect_presentation = Inr one_rect_fabric \<and>
   fabric_to_pptx rt0 one_rect_fabric =
     Inr \<lparr> pp_slide_width = 9144000, pp_slide_height = 6858000,
           pp_slides = [\<lparr> ps_background_solid = False, ps_background_rgb = None,
                          ps_shapes = [] \<rparr>] \<rparr>"
  using rect_presentation_forward rect_presentation_backward by simp


lemma kept_is_non_dropped:
  assumes "\<forall>d. Some d \<in> set rs \<longrightarrow> d \<noteq> []"
  shows "concat (map (\<lambda>r. case r of None \<Rightarrow> [] | Some d \<Rightarrow> if d \<noteq> [] then [d] else []) rs)
           = non_dropped rs"
  using assms by (induction rs) (auto simp: non_dropped_def split: option.splits)

lemma group_shape_result:
  assumes "s_shape_type a = GROUP"
  shows "process_shape rt th (Shape a cs) =
           (case base_of rt a of
              None \<Rightarrow> None
            | Some base \<Rightarrow>
                if non_dropped (map (process_shape rt th) cs) = [] then None
                else Some (AList.update ''objects''
                             (PList (map PDict (non_dropped (map (process_shape rt th) cs))))
                             (AList.update ''type'' (PStr ''group'') base)))"
proof -
  have "\<forall>d. Some d \<in> set (map (process_shape rt th) cs) \<longrightarrow> d \<noteq> []"
    using result_nonempty by (metis (no_types, lifting) imageE list.set_map)
  from kept_is_non_dropped[OF this] show ?thesis
    using assms by (simp add: process_shape_unfold group_result Let_def split: option.splits)
qed

lemma group_objects_nonempty:
  assumes "process_shape rt th s = Some d" and "dict_get d ''type'' = Some (PStr ''group'')"
  shows "\<exists>l. dict_get d ''objects'' = Some (PList l) \<and> l \<noteq> []"
proof -
  obtain a cs where s: "s = Shape a cs" by (cases s)
  from assms(1) obtain base where b: "base_of rt a = Some base"
    unfolding s process_shape_unfold by (auto split: option.splits)
  show ?thesis
  proof (cases "s_shape_type a")
    case GROUP
    then show ?thesis using assms(1) unfolding s group_shape_result[OF GROUP] b
      by (auto simp: dict_get_update split: if_splits)
  next
    case PICTURE
    then show ?thesis using assms picture_result[of rt a base d]
      unfolding s process_shape_unfold b by simp
  next
    case TEXT_BOX
    then show ?thesis using assms textbox_result[of rt th a base d]
      unfolding s process_shape_unfold b by simp
  next
    case AUTO_SHAPE
    then show ?thesis using assms autoshape_result[of rt th a base d]
      unfolding s process_shape_unfold b by (auto split: if_splits)
  next
    case FREEFORM
    then show ?thesis using assms freeform_result[of rt th a base d]
      unfolding s process_shape_unfold b by simp
  next
    case LINE
    then show ?thesis using assms line_result[of rt th a base d]
      unfolding s process_shape_unfold b by simp
  next
    case OTHER_SHAPE_TYPE
    then show ?thesis using assms unfolding s process_shape_unfold b by simp
  qed
qed

lemma without_geometry_dropped:
  assumes "s_left a = None \<or> s_top a = None \<or> s_width a = None \<or> s_height a = None"
  shows "process_shape rt th (Shape a cs) = None"
  by (simp add: process_shape_unfold base_absent[OF assms])

lemma autoshape_raising_dropped:
  assumes "s_shape_type a = AUTO_SHAPE" and "s_auto_shape_type a = AutoShapeTypeRaises"
  shows "process_shape rt th (Shape a cs) = None"
  using assms by (simp add: process_shape_unfold process_autoshape_def split: option.splits)

lemma other_dropped: "process_shape rt th (Shape other_attrs cs) = None"
  by (simp add: process_shape_unfold other_attrs_def split: option.splits)

lemma group_base:
  "base_of rt0 group_attrs =
     Some [(''left'', PNum 100), (''top'', PNum 100), (''width'', PNum 200), (''height'', PNum 50),
           (''rotation'', PNum 0)]"
  by (simp add: base_of_def advanced_of_def extract_shape_properties_def group_attrs_def
      rect_attrs_def get_base_properties_def scalar_rt0 dict_update_Nil)

text \<open>
  Claim C9, as stated for every group shape, fails on a group whose own position and
  size are absent: the base properties are computed before the type is looked at, the
  division of \<open>None\<close> raises, and the group is dropped although its child, the
  rectangle, is converted.
\<close>

theorem group_without_geometry_counterexample:
  "s_shape_type bare_group_attrs = GROUP \<and>
   process_shape rt0 default_theme_colors (Shape rect_attrs []) = Some rect_object \<and>
   process_shape rt0 default_theme_colors (Shape bare_group_attrs [Shape rect_attrs []]) = None"
  by (simp add: rect_forward without_geometry_dropped bare_group_attrs_def group_attrs_def)

text \<open>
  Claim C9, amended. Whenever a group shape is converted to an object, that object is of
  type \<open>group\<close> and its \<open>objects\<close> are the results of its children that are not
  \<open>None\<close>, in the order of the children, at least one. The group is converted to
  \<open>None\<close> when there is no such result, and also when its own position or size is
  absent. Hence whatever shape the dispatcher converts to an object of type \<open>group\<close>,
  at any depth, that object has a non-empty list of objects.
\<close>

theorem group_children:
  assumes "s_shape_type a = GROUP"
  shows "(\<forall>d. process_shape rt th (Shape a cs) = Some d \<longrightarrow>
              dict_get d ''type'' = Some (PStr ''group'') \<and>
              dict_get d ''objects'' =
                Some (PList (map PDict (non_dropped (map (process_shape rt th) cs)))) \<and>
              non_dropped (map (process_shape rt th) cs) \<noteq> []) \<and>
         (non_dropped (map (process_shape rt th) cs) = [] \<longrightarrow>
            process_shape rt th (Shape a cs) = None) \<and>
         (s_left a = None \<or> s_top a = None \<or> s_width a = None \<or> s_height a = None \<longrightarrow>
            process_shape rt th (Shape a cs) = None) \<and>
         (\<forall>d. process_shape rt th s = Some d \<and> dict_get d ''type'' = Some (PStr ''group'') \<longrightarrow>
              (\<exists>l. dict_get d ''objects'' = Some (PList l) \<and> l \<noteq> []))"
  using group_objects_nonempty[of rt th s] without_geometry_dropped[of a rt th cs]
  by (auto simp: group_shape_result[OF assms] dict_get_update split: option.splits if_splits)

theorem group_children_witness:
  "s_shape_type group_attrs = GROUP \<and>
   (\<exists>d. process_shape rt0 default_theme_colors
          (Shape group_attrs [Shape rect_attrs [], Shape other_attrs []]) = Some d \<and>
        dict_get d ''type'' = Some (PStr ''group'') \<and>
        dict_get d ''objects'' = Some (PList [PDict rect_object])) \<and>
   process_shape rt0 default_theme_colors (Shape group_attrs [Shape other_attrs []]) = None"
proof -
  have g: "s_shape_type group_attrs = GROUP" by (simp add: group_attrs_def)
  have 1: "non_dropped (map (process_shape rt0 default_theme_colors)
             [Shape rect_attrs [], Shape other_attrs []]) = [rect_object]"
    by (simp add: non_dropped_def rect_forward other_dropped)
  have 2: "non_dropped (map (process_shape rt0 default_theme_colors) [Shape other_attrs []]) = []"
    by (simp add: non_dropped_def other_dropped)
  have 3: "\<exists>d. process_shape rt0 default_theme_colors
                 (Shape group_attrs [Shape rect_attrs [], Shape other_attrs []]) = Some d"
    unfolding group_shape_result[OF g] 1 group_base by simp
  show ?thesis
    using group_children[OF g, of rt0 default_theme_colors "[Shape rect_attrs [], Shape other_attrs []]"]
      group_children[OF g, of rt0 default_theme_colors "[Shape other_attrs []]"] g 3
    unfolding 1 2 by auto
qed

lemma picture_forward:
  "process_shape rt0 th (Shape picture_attrs []) =
     Some [(''left'', PNum 100), (''top'', PNum 100), (''width'', PNum 200), (''height'', PNum 50),
           (''rotation'', PNum 0), (''type'', PStr ''image''),
           (''src'', PStr ''data:image/png;base64,PNG''), (''opacity'', PNum 1),
           (''crossOrigin'', PStr ''anonymous'')]"
  by (simp add: process_shape_unfold base_of_def advanced_of_def picture_attrs_def rect_attrs_def
      extract_shape_properties_def process_picture_def get_base_properties_def scalar_rt0
      last_segment_def dict_update_def Let_def)
     (simp add: rt0_def)

lemma textbox_forward_fill:
  "map_option (\<lambda>d. (dict_get d ''fill'', dict_get d ''backgroundColor''))
     (process_shape rt0 default_theme_colors (Shape textbox_attrs []))
       = Some (Some (PStr ''#000000''), Some (PStr ''transparent''))"
  apply (simp add: process_shape_unfold base_of_def advanced_of_def textbox_attrs_def rect_attrs_def
      extract_shape_properties_def process_textbox_def get_base_properties_def scalar_rt0 Let_def)
  apply (simp add: convert_to_fabric_text_def walk_paragraphs_def add_paragraph_def add_run_def
      text_acc0_def three_runs_def para_of_def plain_run_def Let_def set_default_def
      most_common_def rt0_def dict_get_def dict_update_def run_style_def get_shape_color_def
      no_fill_def)
  done

text \<open>
  Claim C6, as stated for every shape, fails on the kinds that take no fill from the
  colour resolution. A picture without a fill gives an object with no \<open>fill\<close> entry at
  all (\<open># Don't try to access fill property for pictures\<close>); a text box without a fill
  gives \<open>fill\<close> the colour of its text, \<open>#000000\<close>, and \<open>transparent\<close> as its
  \<open>backgroundColor\<close>.
\<close>

theorem unfilled_shape_counterexample:
  "map_option (\<lambda>d. dict_get d ''fill'')
     (process_shape rt0 default_theme_colors (Shape picture_attrs [])) = Some None \<and>
   map_option (\<lambda>d. (dict_get d ''fill'', dict_get d ''backgroundColor''))
     (process_shape rt0 default_theme_colors (Shape textbox_attrs []))
       = Some (Some (PStr ''#000000''), Some (PStr ''transparent''))"
  unfolding picture_forward textbox_forward_fill by (simp add: dict_get_def)

lemma autoshape_shape_converted:
  assumes "s_shape_type a = AUTO_SHAPE" and "s_auto_shape_type a \<noteq> AutoShapeTypeRaises"
      and "s_left a = Some l" "s_top a = Some t" "s_width a = Some w"
          "s_height a = Some h"
  shows "\<exists>d. process_shape rt th (Shape a cs) = Some d"
proof -
  obtain base where b: "base_of rt a = Some base"
    using assms(3-6) by (simp add: base_of_def get_base_properties_def)
  from autoshape_converted[OF base_of_simple(4)[OF b] assms(2), of rt th] show ?thesis
    using assms(1) by (simp add: process_shape_unfold b)
qed

text \<open>
  Claim C6, amended. The dispatcher returns an object or \<open>None\<close>, never an exception.
  For a shape without a fill (no fill attribute, no fill element, or a fill of the
  background kind), whenever an object is returned: that of an auto shape, of a line and
  of a freeform has the string \<open>transparent\<close> as its \<open>fill\<close>; that of a text box has
  \<open>transparent\<close> as its \<open>backgroundColor\<close>; that of a picture has the \<open>fill\<close> of its
  advanced properties, that is none unless it carries a gradient.
\<close>

theorem unfilled_shape_is_transparent:
  assumes "unfilled (s_fill a)"
  shows "(s_shape_type a = AUTO_SHAPE \<or> s_shape_type a = LINE \<or> s_shape_type a = FREEFORM \<longrightarrow>
            (\<forall>d. process_shape rt th (Shape a cs) = Some d \<longrightarrow>
                 dict_get d ''fill'' = Some (PStr ''transparent''))) \<and>
         (s_shape_type a = TEXT_BOX \<longrightarrow>
            (\<forall>d. process_shape rt th (Shape a cs) = Some d \<longrightarrow>
                 dict_get d ''backgroundColor'' = Some (PStr ''transparent''))) \<and>
         (s_shape_type a = PICTURE \<longrightarrow>
            (\<forall>d. process_shape rt th (Shape a cs) = Some d \<longrightarrow>
                 dict_get d ''fill'' = dict_get (advanced_of rt a) ''fill''))"
proof (cases "base_of rt a")
  case None
  then show ?thesis by (simp add: process_shape_unfold)
next
  case (Some base)
  show ?thesis
    using unfilled_transparent[OF assms, of th]
      autoshape_result[of rt th a base]
      line_result[of rt th a base]
      freeform_result[of rt th a base]
      textbox_result[of rt th a base]
      picture_result[of rt a base]
      base_of_simple(6)[OF Some]
    by (auto simp: process_shape_unfold Some)
qed

theorem unfilled_shape_is_transparent_witness:
  "unfilled no_fill \<and>
   (\<exists>d. process_shape rt0 default_theme_colors (Shape (rect_attrs\<lparr> s_fill := no_fill \<rparr>) []) = Some d \<and>
        dict_get d ''fill'' = Some (PStr ''transparent''))"
proof -
  have u: "unfilled (s_fill (rect_attrs\<lparr> s_fill := no_fill \<rparr>))" by (simp add: unfilled_def no_fill_def)
  have t: "s_shape_type (rect_attrs\<lparr> s_fill := no_fill \<rparr>) = AUTO_SHAPE" by (simp add: rect_attrs_def)
  have "\<exists>d. process_shape rt0 default_theme_colors (Shape (rect_attrs\<lparr> s_fill := no_fill \<rparr>) []) = Some d"
    by (rule autoshape_shape_converted) (simp_all add: rect_attrs_def)
  then show ?thesis
    using unfilled_shape_is_transparent[OF u, of rt0 default_theme_colors "[]"] t u by auto
qed

subsection \<open>Effects on the scene object\<close>

lemma extracted_effects_shape:
  assumes "extract_shape_properties rt element = Some props"
  shows "\<exists>s g e. sp_effects props = s @ g @ e \<and>
           (s = [] \<or> (\<exists>c opac b x y. s = [Shadow c opac b x y])) \<and>
           (g = [] \<or> (\<exists>c opac r. g = [Glow c opac r])) \<and>
           (e = [] \<or> (\<exists>r. e = [SoftEdge r]))"
proof -
  from assms have "sp_effects props = [] \<or> (\<exists>el. sp_effects props = extract_effects rt el)"
    by (auto simp: extract_shape_properties_def split: option.splits)
  then show ?thesis
  proof
    assume "sp_effects props = []"
    then show ?thesis by simp
  next
    assume "\<exists>el. sp_effects props = extract_effects rt el"
    then obtain el where "sp_effects props = extract_effects rt el" ..
    then show ?thesis using extract_effects_shape[of rt el] by simp
  qed
qed

lemma converted_shadow:
  assumes "\<forall>g. sp_gradient props = Some g \<longrightarrow> g_type g \<noteq> ''linear''"
  shows "dict_get (convert_to_fabric rt props) ''shadow'' =
           (if sp_effects props = [] then None
            else Some (effect_shadow rt (last (sp_effects props))))"
proof -
  from no_shadow_before[OF assms, of rt] obtain fp2 where
    fp2: "convert_to_fabric rt props =
            foldl (\<lambda>fp effect. AList.update ''shadow'' (effect_shadow rt effect) fp) fp2 (sp_effects props)"
         "dict_get fp2 ''shadow'' = None" by blast
  show ?thesis unfolding fp2(1) foldl_shadow using fp2(2) by simp
qed

lemma object_shadow:
  assumes "process_shape rt th (Shape a cs) = Some d"
  shows "dict_get d ''shadow'' = dict_get (advanced_of rt a) ''shadow''"
proof -
  from assms obtain base where b: "base_of rt a = Some base"
    unfolding process_shape_unfold by (auto split: option.splits)
  show ?thesis
  proof (cases "s_shape_type a")
    case GROUP
    then show ?thesis using assms base_of_simple(5)[OF b] unfolding group_shape_result[OF GROUP] b
      by (auto simp: dict_get_update split: if_splits)
  next
    case PICTURE
    then show ?thesis using assms picture_result[of rt a base d] base_of_simple(5)[OF b]
      unfolding process_shape_unfold b by simp
  next
    case TEXT_BOX
    then show ?thesis using assms textbox_result[of rt th a base d] base_of_simple(5)[OF b]
      unfolding process_shape_unfold b by simp
  next
    case AUTO_SHAPE
    then show ?thesis using assms autoshape_result[of rt th a base d] base_of_simple(5)[OF b]
      unfolding process_shape_unfold b by simp
  next
    case FREEFORM
    then show ?thesis using assms freeform_result[of rt th a base d] base_of_simple(5)[OF b]
      unfolding process_shape_unfold b by simp
  next
    case LINE
    then show ?thesis using assms line_result[of rt th a base d] base_of_simple(5)[OF b]
      unfolding process_shape_unfold b by simp
  next
    case OTHER_SHAPE_TYPE
    then show ?thesis using assms unfolding process_shape_unfold b by simp
  qed
qed

text \<open>
  The extraction looks for \<open>a:spPr\<close>. Effects kept under \<open>p:spPr\<close> are not read.
\<close>

lemma effects_under_p_spPr:
  "extract_shape_properties rt (Some (Elem ''p:sp'' [] [Elem ''p:spPr'' [] [shadow_and_glow]])) = None"
  by (simp add: extract_shape_properties_def shadow_and_glow_def xml_find_def xml_findall_def)

text \<open>
  Claim C2, amended. It speaks of the shapes whose advanced properties are extracted,
  that is whose element has an \<open>a:spPr\<close> element, and which have no linear gradient.
  The effects of such a shape are extracted in the order shadow, glow, soft edge, at
  most one of each. When there is at least one, the converted properties keep one shadow
  descriptor, that of the last effect extracted: the priority is soft edge over glow
  over shadow. The object the dispatcher returns for the shape, whenever it returns
  one, has that shadow. A glow alone is a centred shadow with blur twice its radius and
  its own colour and opacity; a soft edge alone is a centred black shadow with opacity
  0.1 and blur equal to its radius.
\<close>

theorem effect_last_wins:
  assumes "extract_shape_properties rt (s_element a) = Some props"
      and "\<forall>g. sp_gradient props = Some g \<longrightarrow> g_type g \<noteq> ''linear''"
  shows "(\<exists>s g e. sp_effects props = s @ g @ e \<and>
            (s = [] \<or> (\<exists>c opac b x y. s = [Shadow c opac b x y])) \<and>
            (g = [] \<or> (\<exists>c opac r. g = [Glow c opac r])) \<and>
            (e = [] \<or> (\<exists>r. e = [SoftEdge r]))) \<and>
         dict_get (convert_to_fabric rt props) ''shadow'' =
           (if sp_effects props = [] then None
            else Some (effect_shadow rt (last (sp_effects props)))) \<and>
         (\<forall>d. process_shape rt th (Shape a cs) = Some d \<longrightarrow>
              dict_get d ''shadow'' =
                (if sp_effects props = [] then None
                 else Some (effect_shadow rt (last (sp_effects props))))) \<and>
         (\<forall>c opac r. sp_effects props = [Glow c opac r] \<longrightarrow>
            dict_get (convert_to_fabric rt props) ''shadow'' =
              Some (PDict [(''color'', PStr c), (''blur'', PNum (fl rt (r * 2))),
                           (''offsetX'', PNum 0), (''offsetY'', PNum 0), (''opacity'', PNum opac)])) \<and>
         (\<forall>r. sp_effects props = [SoftEdge r] \<longrightarrow>
            dict_get (convert_to_fabric rt props) ''shadow'' =
              Some (PDict [(''color'', PStr ''#000000''), (''blur'', PNum r),
                           (''offsetX'', PNum 0), (''offsetY'', PNum 0),
                           (''opacity'', PNum (fl rt (1 / 10)))]))"
proof -
  have adv: "advanced_of rt a = convert_to_fabric rt props"
    using assms(1) by (simp add: advanced_of_def)
  have obj: "\<forall>d. process_shape rt th (Shape a cs) = Some d \<longrightarrow>
               dict_get d ''shadow'' = dict_get (convert_to_fabric rt props) ''shadow''"
    using object_shadow[of rt th a cs] adv by simp
  show ?thesis
    using extracted_effects_shape[OF assms(1)] converted_shadow[OF assms(2), of rt] obj
    by auto
qed

theorem effect_last_wins_witness:
  "extract_shape_properties rt0 (s_element shadow_and_glow_attrs) =
     Some \<lparr> sp_effects = [Shadow ''#FF0000'' 1 1 2 2, Glow ''#00FF00'' 1 3],
            sp_gradient = None, sp_custom_geometry = None \<rparr> \<and>
   (\<exists>d. process_shape rt0 default_theme_colors (Shape shadow_and_glow_attrs []) = Some d \<and>
        dict_get d ''shadow'' = Some (effect_shadow rt0 (Glow ''#00FF00'' 1 3)))"
proof -
  have e: "extract_shape_properties rt0 (s_element shadow_and_glow_attrs) =
             Some \<lparr> sp_effects = [Shadow ''#FF0000'' 1 1 2 2, Glow ''#00FF00'' 1 3],
                    sp_gradient = None, sp_custom_geometry = None \<rparr>"
    by (simp add: shadow_and_glow_attrs_def shadow_and_glow_props)
  have c: "\<exists>d. process_shape rt0 default_theme_colors (Shape shadow_and_glow_attrs []) = Some d"
    by (rule autoshape_shape_converted) (simp_all add: shadow_and_glow_attrs_def rect_attrs_def)
  show ?thesis
    using effect_last_wins[OF e, of default_theme_colors "[]"] e c by auto
qed

end
